theory Spec2Isabelle
  imports Main
begin

section \<open>Uploading snapshot bundles: the script upload_sonatype_snapshot_bundles.js\<close>

text \<open>
  The script is a sequence of effects on the process's surroundings: it spawns the
  external tools \<^verbatim>\<open>mktemp\<close>, \<^verbatim>\<open>unzip\<close>, \<^verbatim>\<open>mvn\<close> and \<^verbatim>\<open>rm\<close>, writes one file, tests
  files for existence, reads two environment variables and logs to the console.
  The embedding passes a \<open>world\<close> through every function: the environment, the
  filesystem, whatever else the external tools depend on (\<open>ext\<close>: the network, the
  clock, random numbers), and the trace of effects the script itself performed, in
  order.
  A JavaScript exception is the left summand of the result; the world reached when
  the exception was thrown is returned with it, since effects are not rolled back.
\<close>

subsection \<open>Values, errors, the world\<close>

text \<open>
  The JavaScript values the functions of the script return or receive. \<open>Inherited name\<close>
  is the value of the property \<open>name\<close> of \<^verbatim>\<open>Object.prototype\<close>: a built-in function, or
  the prototype object itself for \<^verbatim>\<open>__proto__\<close>.
\<close>

datatype jsval = Undefined | Str string | Inherited string

text \<open>
  \<open>Error msg\<close> is \<^verbatim>\<open>new Error(msg)\<close>. \<open>EEXIST path\<close> and \<open>EISDIR path\<close> are the
  system errors Node's \<^verbatim>\<open>fs.writeFileSync\<close> throws with these codes.
\<close>

datatype error = Error string | EEXIST string | EISDIR string

datatype node = File string | Dir

type_synonym filesystem = "string \<rightharpoonup> node"

datatype event =
    Spawn string "string list"
  | Write string string
  | Log string

record 'x world =
  env :: "string \<rightharpoonup> string"
  fsys :: filesystem
  ext :: 'x
  trace :: "event list"

text \<open>
  What \<^verbatim>\<open>spawnSync\<close> returns, as far as the script could read it: the captured
  standard output (\<open>None\<close> is JavaScript's \<^verbatim>\<open>null\<close>) and the exit status.
\<close>

record spawn_result =
  stdout :: "string option"
  status :: "int option"

text \<open>
  The external tools are not part of the script. They are a parameter: any function
  from the command, its arguments and the state of the surroundings (the hidden state
  and the filesystem) to a result and a new state of the surroundings.
\<close>

type_synonym 'x tools =
  "string \<Rightarrow> string list \<Rightarrow> 'x \<times> filesystem \<Rightarrow> spawn_result \<times> ('x \<times> filesystem)"

datatype stdio = Pipe | Inherit

text \<open>
  \<^verbatim>\<open>spawnSync(command, args, {stdio})\<close>: runs the tool to completion and returns its
  result; it does not throw on a non-zero exit status. With \<^verbatim>\<open>stdio: 'inherit'\<close> the
  output goes to the parent's streams and the returned \<^verbatim>\<open>stdout\<close> is \<^verbatim>\<open>null\<close>.
\<close>

definition spawnSync :: "'x tools \<Rightarrow> string \<Rightarrow> string list \<Rightarrow> stdio \<Rightarrow> 'x world \<Rightarrow> spawn_result \<times> 'x world" where
  "spawnSync T command args io w =
     (let (r, x', fs') = T command args (ext w, fsys w) in
      ((if io = Inherit then r\<lparr>stdout := None\<rparr> else r),
       w\<lparr>fsys := fs', ext := x', trace := trace w @ [Spawn command args]\<rparr>))"

definition console_log :: "string \<Rightarrow> 'x world \<Rightarrow> 'x world" where
  "console_log msg w = w\<lparr>trace := trace w @ [Log msg]\<rparr>"

definition existsSync :: "filesystem \<Rightarrow> string \<Rightarrow> bool" where
  "existsSync fs path = (case fs path of None \<Rightarrow> False | Some n \<Rightarrow> True)"

text \<open>
  \<^verbatim>\<open>fs.writeFileSync(path, data, {flag})\<close> for the two flags that matter here: \<^verbatim>\<open>'w'\<close>
  (the default: create the file or truncate it) and \<^verbatim>\<open>'wx+'\<close> (the script's: like
  \<^verbatim>\<open>'w+'\<close> but fail when the path exists). A write that fails changes nothing.
  The failures modelled are the two that depend on what is at the path; a missing
  parent directory, missing permissions or a full disk are not.
\<close>

datatype flag = Flag_w | Flag_wx_plus

definition writeFileSync :: "string \<Rightarrow> string \<Rightarrow> flag \<Rightarrow> 'x world \<Rightarrow> (error + jsval) \<times> 'x world" where
  "writeFileSync path data fl w =
     (if fl = Flag_wx_plus \<and> existsSync (fsys w) path then (Inl (EEXIST path), w)
      else if fsys w path = Some Dir then (Inl (EISDIR path), w)
      else (Inr Undefined,
            w\<lparr>fsys := (fsys w)(path \<mapsto> File data), trace := trace w @ [Write path data]\<rparr>))"

subsection \<open>Strings\<close>

text \<open>\<^verbatim>\<open>String(x)\<close> of a captured output; \<^verbatim>\<open>String(null)\<close> is the text \<^verbatim>\<open>null\<close>.\<close>

definition String_of :: "string option \<Rightarrow> string" where
  "String_of b = (case b of None \<Rightarrow> ''null'' | Some s \<Rightarrow> s)"

text \<open>The white space and line terminators \<^verbatim>\<open>trim\<close> removes, among the ASCII characters.\<close>

definition is_space :: "char \<Rightarrow> bool" where
  "is_space c = (c = CHR 0x20 \<or> c = CHR 0x09 \<or> c = CHR 0x0A \<or> c = CHR 0x0B
                 \<or> c = CHR 0x0C \<or> c = CHR 0x0D)"

definition trim :: "string \<Rightarrow> string" where
  "trim s = rev (dropWhile is_space (rev (dropWhile is_space s)))"

text \<open>\<^verbatim>\<open>lines(args)\<close> is \<^verbatim>\<open>args.join('\n')\<close>.\<close>

fun lines :: "string list \<Rightarrow> string" where
  "lines [] = []"
| "lines [x] = x"
| "lines (x # y # ys) = x @ [CHR 0x0A] @ lines (y # ys)"

subsection \<open>getEnvOrThrow\<close>

text \<open>
  \<^verbatim>\<open>process.env[name]\<close> is a property lookup on an object whose prototype is
  \<^verbatim>\<open>Object.prototype\<close>: it is the variable's value when the variable is set; when it is
  not, the lookup goes on to the prototype, which has the properties below; for any
  other name it is \<^verbatim>\<open>undefined\<close>.
\<close>

definition objectPrototypeNames :: "string list" where
  "objectPrototypeNames =
     [''constructor'', ''__defineGetter__'', ''__defineSetter__'', ''hasOwnProperty'',
      ''__lookupGetter__'', ''__lookupSetter__'', ''isPrototypeOf'',
      ''propertyIsEnumerable'', ''toString'', ''valueOf'', ''__proto__'',
      ''toLocaleString'']"

definition process_env :: "'x world \<Rightarrow> string \<Rightarrow> jsval" where
  "process_env w name =
     (case env w name of
        Some val \<Rightarrow> Str val
      | None \<Rightarrow> if name \<in> set objectPrototypeNames then Inherited name else Undefined)"

definition getEnvOrThrow :: "string \<Rightarrow> 'x world \<Rightarrow> error + jsval" where
  "getEnvOrThrow name w =
     (let val = process_env w name in
      if val = Undefined then Inl (Error (''Environment variable not set: '' @ name))
      else Inr val)"

text \<open>
  The text a template literal \<^verbatim>\<open>`${v}`\<close> puts in for a value: a string as it is; for the
  other values what \<^verbatim>\<open>String(v)\<close> gives (a built-in function prints as native code under
  its own name, which is \<^verbatim>\<open>Object\<close> for the constructor).
\<close>

fun templateString :: "jsval \<Rightarrow> string" where
  "templateString Undefined = ''undefined''"
| "templateString (Str s) = s"
| "templateString (Inherited name) =
     (if name = ''__proto__'' then ''[object Object]''
      else ''function '' @ (if name = ''constructor'' then ''Object'' else name)
           @ ''() { [native code] }'')"

subsection \<open>withTempDir\<close>

text \<open>
  The callback is called between the two spawns. Nothing guards the call: when the
  callback throws, the statements after it do not run. The function has no
  \<^verbatim>\<open>return\<close>, so a call that completes evaluates to \<^verbatim>\<open>undefined\<close>.
\<close>

definition withTempDir ::
  "'x tools \<Rightarrow> (string \<Rightarrow> 'x world \<Rightarrow> (error + jsval) \<times> 'x world) \<Rightarrow> 'x world \<Rightarrow> (error + jsval) \<times> 'x world" where
  "withTempDir T callback w =
     (let (r, w1) = spawnSync T ''mktemp'' [''-d''] Pipe w;
          tmpPath = trim (String_of (stdout r));
          w2 = console_log (''Created temp directory: '' @ tmpPath) w1
      in case callback tmpPath w2 of
           (Inl e, w3) \<Rightarrow> (Inl e, w3)
         | (Inr v, w3) \<Rightarrow>
             (let (r', w4) = spawnSync T ''rm'' [''-R'', tmpPath] Pipe w3;
                  w5 = console_log (''Deleted temp directory: '' @ tmpPath) w4
              in (Inr Undefined, w5)))"

subsection \<open>mavenDeploySnapshotFromBazel\<close>

text \<open>A JavaScript \<^verbatim>\<open>Map\<close> iterates in insertion order: an association list.\<close>

definition JAR_SUFFIX_BY_MVN_ARG :: "(string \<times> string) list" where
  "JAR_SUFFIX_BY_MVN_ARG =
     [(''-Dfile'', ''''), (''-Dsources'', ''-sources''), (''-Djavadoc'', ''-javadoc'')]"

text \<open>
  The loop over the table (lines 96 to 102): \<open>jarArgs\<close> is the accumulator that
  \<^verbatim>\<open>push\<close> extends at its end.
\<close>

fun collectJarArgs :: "filesystem \<Rightarrow> string \<Rightarrow> (string \<times> string) list \<Rightarrow> string list \<Rightarrow> string list" where
  "collectJarArgs fs baseJarPath [] jarArgs = jarArgs"
| "collectJarArgs fs baseJarPath ((arg, suffix) # rest) jarArgs =
     (let fullJarPath = baseJarPath @ suffix @ ''.jar'' in
      if existsSync fs fullJarPath
      then collectJarArgs fs baseJarPath rest (jarArgs @ [arg @ ''='' @ fullJarPath])
      else collectJarArgs fs baseJarPath rest jarArgs)"

text \<open>The argument array of the \<^verbatim>\<open>mvn\<close> call (lines 106 to 114).\<close>

definition mvnArgs :: "string \<Rightarrow> string \<Rightarrow> string list \<Rightarrow> string list" where
  "mvnArgs settingsPath tmpPath jarArgs =
     [''deploy:deploy-file'',
      ''--settings='' @ settingsPath,
      ''-DgeneratePom=false'',
      ''-DrepositoryId=snapshot-repo-id'',
      ''-Durl=https://oss.sonatype.org/content/repositories/snapshots/'',
      ''-DpomFile='' @ tmpPath @ ''/pom.xml''] @ jarArgs"

text \<open>The callback passed to \<open>withTempDir\<close> (lines 89 to 116).\<close>

definition deployCallback :: "'x tools \<Rightarrow> string \<Rightarrow> string \<Rightarrow> string \<Rightarrow> 'x world \<Rightarrow> (error + jsval) \<times> 'x world" where
  "deployCallback T settingsPath artifactId tmpPath w =
     (let (r1, w1) = spawnSync T ''unzip''
                       [''bazel-bin/'' @ artifactId @ ''_bundle.jar'', ''-d'', tmpPath] Inherit w;
          baseJarPath = tmpPath @ ''/'' @ artifactId @ ''-1.0-SNAPSHOT'';
          jarArgs = collectJarArgs (fsys w1) baseJarPath JAR_SUFFIX_BY_MVN_ARG [];
          (r2, w2) = spawnSync T ''mvn'' (mvnArgs settingsPath tmpPath jarArgs) Inherit w1
      in (Inr Undefined, w2))"

definition mavenDeploySnapshotFromBazel :: "'x tools \<Rightarrow> string \<Rightarrow> string \<Rightarrow> 'x world \<Rightarrow> (error + jsval) \<times> 'x world" where
  "mavenDeploySnapshotFromBazel T settingsPath artifactId w =
     withTempDir T (deployCallback T settingsPath artifactId) w"

subsection \<open>main\<close>

definition artifactIds :: "string list" where
  "artifactIds =
     [''closure-compiler'',
      ''closure-compiler-unshaded'',
      ''closure-compiler-externs'',
      ''closure-compiler-main'',
      ''closure-compiler-parent'']"

text \<open>The \<^verbatim>\<open>for\<close> loop over the identifiers (lines 69 to 71); an exception leaves it.\<close>

fun deployEach :: "'x tools \<Rightarrow> string \<Rightarrow> string list \<Rightarrow> 'x world \<Rightarrow> (error + jsval) \<times> 'x world" where
  "deployEach T settingsPath [] w = (Inr Undefined, w)"
| "deployEach T settingsPath (id' # ids) w =
     (case mavenDeploySnapshotFromBazel T settingsPath id' w of
        (Inl e, w') \<Rightarrow> (Inl e, w')
      | (Inr v, w') \<Rightarrow> deployEach T settingsPath ids w')"

text \<open>
  The text of the settings document (lines 47 to 59), for the texts that the two
  template literals of lines 54 and 55 put in.
\<close>

definition settingsXml :: "string \<Rightarrow> string \<Rightarrow> string" where
  "settingsXml username password =
     lines
      [''<settings xmlns='' @ [CHR 0x27] @ ''http://maven.apache.org/SETTINGS/1.0.0'' @ [CHR 0x27],
       ''          xmlns:xsi='' @ [CHR 0x27] @ ''http://www.w3.org/2001/XMLSchema-instance'' @ [CHR 0x27],
       ''          xsi:schemaLocation='' @ [CHR 0x27]
         @ ''http://maven.apache.org/SETTINGS/1.0.0 http://maven.apache.org/xsd/settings-1.0.0.xsd''
         @ [CHR 0x27] @ ''>'',
       ''  <servers>'',
       ''    <server>'',
       ''      <id>snapshot-repo-id</id>'',
       ''      <username>'' @ username @ ''</username>'',
       ''      <password>'' @ password @ ''</password>'',
       ''    </server>'',
       ''  </servers>'',
       ''</settings>'']"

text \<open>
  The \<^verbatim>\<open>fs.writeFileSync\<close> call of \<open>main\<close> (lines 46 to 60). JavaScript evaluates the
  arguments before the call, left to right: the user name is read first, then the
  password, and only then is the file opened.
\<close>

definition writeSettings :: "string \<Rightarrow> 'x world \<Rightarrow> (error + jsval) \<times> 'x world" where
  "writeSettings settingsPath w =
     (case getEnvOrThrow ''SONATYPE_USERNAME'' w of
        Inl e \<Rightarrow> (Inl e, w)
      | Inr username \<Rightarrow>
          (case getEnvOrThrow ''SONATYPE_PASSWORD'' w of
             Inl e \<Rightarrow> (Inl e, w)
           | Inr password \<Rightarrow>
               writeFileSync settingsPath
                 (settingsXml (templateString username) (templateString password))
                 Flag_wx_plus w))"

text \<open>The callback of \<open>main\<close> (lines 44 to 72).\<close>

definition mainCallback :: "'x tools \<Rightarrow> string \<Rightarrow> 'x world \<Rightarrow> (error + jsval) \<times> 'x world" where
  "mainCallback T tmpPath w =
     (let settingsPath = tmpPath @ ''/settings.xml'' in
      case writeSettings settingsPath w of
        (Inl e, w1) \<Rightarrow> (Inl e, w1)
      | (Inr v, w1) \<Rightarrow>
          (case deployEach T settingsPath artifactIds w1 of
             (Inl e, w2) \<Rightarrow> (Inl e, w2)
           | (Inr v', w2) \<Rightarrow> (Inr Undefined, w2)))"

definition main :: "'x tools \<Rightarrow> 'x world \<Rightarrow> (error + jsval) \<times> 'x world" where
  "main T w = withTempDir T (mainCallback T) w"

section \<open>Notions for stating the properties\<close>

text \<open>
  The events a computation added to the trace, and the tool invocations among them.
\<close>

definition emitted :: "'x world \<Rightarrow> 'x world \<Rightarrow> event list" where
  "emitted w w' = drop (length (trace w)) (trace w')"

fun spawned :: "event list \<Rightarrow> (string \<times> string list) list" where
  "spawned [] = []"
| "spawned (Spawn command args # es) = (command, args) # spawned es"
| "spawned (Write path data # es) = spawned es"
| "spawned (Log msg # es) = spawned es"

definition mvnCalls :: "event list \<Rightarrow> string list list" where
  "mvnCalls es = map snd (filter (\<lambda>(command, args). command = ''mvn'') (spawned es))"

text \<open>
  The path \<open>withTempDir\<close> computes when it starts in \<open>w\<close>, the world in which it calls
  its callback, and the world its two closing statements make of the world \<open>w3\<close> the
  callback returned.
\<close>

definition tmpPathOf :: "'x tools \<Rightarrow> 'x world \<Rightarrow> string" where
  "tmpPathOf T w = trim (String_of (stdout (fst (T ''mktemp'' [''-d''] (ext w, fsys w)))))"

definition scopeEntered :: "'x tools \<Rightarrow> 'x world \<Rightarrow> 'x world" where
  "scopeEntered T w =
     w\<lparr>fsys := snd (snd (T ''mktemp'' [''-d''] (ext w, fsys w))),
       ext := fst (snd (T ''mktemp'' [''-d''] (ext w, fsys w))),
       trace := trace w @ [Spawn ''mktemp'' [''-d''],
                           Log (''Created temp directory: '' @ tmpPathOf T w)]\<rparr>"

definition scopeExited :: "'x tools \<Rightarrow> string \<Rightarrow> 'x world \<Rightarrow> 'x world" where
  "scopeExited T tmpPath w3 =
     w3\<lparr>fsys := snd (snd (T ''rm'' [''-R'', tmpPath] (ext w3, fsys w3))),
        ext := fst (snd (T ''rm'' [''-R'', tmpPath] (ext w3, fsys w3))),
        trace := trace w3 @ [Spawn ''rm'' [''-R'', tmpPath],
                             Log (''Deleted temp directory: '' @ tmpPath)]\<rparr>"

text \<open>
  The filesystem \<^verbatim>\<open>unzip\<close> leaves when \<open>mavenDeploySnapshotFromBazel\<close> starts in \<open>w\<close>:
  \<^verbatim>\<open>mktemp\<close> has run, then \<^verbatim>\<open>unzip\<close> with the bundle of the artifact.
\<close>

definition extracted :: "'x tools \<Rightarrow> string \<Rightarrow> 'x world \<Rightarrow> filesystem" where
  "extracted T artifactId w =
     snd (snd (T ''unzip'' [''bazel-bin/'' @ artifactId @ ''_bundle.jar'', ''-d'', tmpPathOf T w]
                 (snd (T ''mktemp'' [''-d''] (ext w, fsys w)))))"

text \<open>
  The outline of a trace: the commands spawned, in order, each with its first
  argument only (the archive of an \<^verbatim>\<open>unzip\<close>, the goal of a \<^verbatim>\<open>mvn\<close>).
\<close>

definition outline :: "event list \<Rightarrow> (string \<times> string list) list" where
  "outline es = map (\<lambda>(command, args). (command, take 1 args)) (spawned es)"

subsection \<open>A concrete set of tools and concrete worlds\<close>

text \<open>
  One instance of the tools, for running the script on concrete inputs. \<^verbatim>\<open>mktemp\<close>
  creates \<^verbatim>\<open>/tmp/tmp.a\<close>, or \<^verbatim>\<open>/tmp/tmp.b\<close> when the former exists (the script holds at most
  two directories at a time), and prints the name and a newline;
  \<^verbatim>\<open>rm -R\<close> removes a directory and all below it; \<^verbatim>\<open>unzip\<close> knows one archive, which
  holds a POM, a main jar and a sources jar, and exits with status 9 for any other;
  \<^verbatim>\<open>mvn\<close> fails with status 1 (the repository cannot be reached).
\<close>

fun isPrefix :: "string \<Rightarrow> string \<Rightarrow> bool" where
  "isPrefix [] ys = True"
| "isPrefix (x # xs) [] = False"
| "isPrefix (x # xs) (y # ys) = (x = y \<and> isPrefix xs ys)"

definition removeTree :: "string \<Rightarrow> filesystem \<Rightarrow> filesystem" where
  "removeTree d fs = (\<lambda>p. if p = d \<or> isPrefix (d @ ''/'') p then None else fs p)"

definition demoTools :: "unit tools" where
  "demoTools command args s =
     (let x = fst s; fs = snd s in
      if command = ''mktemp'' then
        (let d = (if existsSync fs ''/tmp/tmp.a'' then ''/tmp/tmp.b'' else ''/tmp/tmp.a'')
         in (\<lparr>stdout = Some (d @ [CHR 0x0A]), status = Some 0\<rparr>, x, fs(d \<mapsto> Dir)))
      else if command = ''unzip'' then
        (case args of
           [archive, opt, dir] \<Rightarrow>
             if archive = ''bazel-bin/closure-compiler_bundle.jar'' \<and> existsSync fs archive
             then (\<lparr>stdout = Some [], status = Some 0\<rparr>, x,
                   fs(dir @ ''/pom.xml'' \<mapsto> File ''pom'',
                      dir @ ''/closure-compiler-1.0-SNAPSHOT.jar'' \<mapsto> File ''classes'',
                      dir @ ''/closure-compiler-1.0-SNAPSHOT-sources.jar'' \<mapsto> File ''sources''))
             else (\<lparr>stdout = Some [], status = Some 9\<rparr>, x, fs)
         | _ \<Rightarrow> (\<lparr>stdout = Some [], status = Some 10\<rparr>, x, fs))
      else if command = ''rm'' then
        (case args of
           [opt, dir] \<Rightarrow> (\<lparr>stdout = Some [], status = Some 0\<rparr>, x, removeTree dir fs)
         | _ \<Rightarrow> (\<lparr>stdout = Some [], status = Some 1\<rparr>, x, fs))
      else if command = ''mvn'' then (\<lparr>stdout = Some [], status = Some 1\<rparr>, x, fs)
      else (\<lparr>stdout = None, status = None\<rparr>, x, fs))"

text \<open>The same tools, every one of them reporting success.\<close>

definition demoToolsOk :: "unit tools" where
  "demoToolsOk command args s =
     ((fst (demoTools command args s))\<lparr>status := Some 0\<rparr>, snd (demoTools command args s))"

definition demoFs :: filesystem where
  "demoFs = [''bazel-bin/closure-compiler_bundle.jar'' \<mapsto> File ''bundle'']"

definition demoWorld :: "unit world" where
  "demoWorld =
     \<lparr>env = [''SONATYPE_USERNAME'' \<mapsto> ''ci-user'', ''SONATYPE_PASSWORD'' \<mapsto> ''s3cret''],
      fsys = demoFs, ext = (), trace = []\<rparr>"

definition noCredentials :: "unit world" where
  "noCredentials = \<lparr>env = Map.empty, fsys = demoFs, ext = (), trace = []\<rparr>"

definition noPassword :: "unit world" where
  "noPassword = \<lparr>env = [''SONATYPE_USERNAME'' \<mapsto> ''ci-user''], fsys = demoFs, ext = (), trace = []\<rparr>"

definition emptyCredentials :: "unit world" where
  "emptyCredentials =
     \<lparr>env = [''SONATYPE_USERNAME'' \<mapsto> [], ''SONATYPE_PASSWORD'' \<mapsto> []],
      fsys = demoFs, ext = (), trace = []\<rparr>"

text \<open>A callback that returns the path it is given, and one that throws.\<close>

definition echoCallback :: "string \<Rightarrow> 'x world \<Rightarrow> (error + jsval) \<times> 'x world" where
  "echoCallback tmpPath w = (Inr (Str tmpPath), w)"

definition throwingCallback :: "string \<Rightarrow> 'x world \<Rightarrow> (error + jsval) \<times> 'x world" where
  "throwingCallback tmpPath w = (Inl (Error ''boom''), w)"

section \<open>Facts about traces, scopes and the loop\<close>

text \<open>
  The trace projections distribute over concatenation, so the events of each call can
  be read off separately.
\<close>

lemma spawned_append: "spawned (xs @ ys) = spawned xs @ spawned ys"
  by (induction xs rule: spawned.induct) auto

lemma outline_append: "outline (xs @ ys) = outline xs @ outline ys"
  by (simp add: outline_def spawned_append)

lemma mvnCalls_append: "mvnCalls (xs @ ys) = mvnCalls xs @ mvnCalls ys"
  by (simp add: mvnCalls_def spawned_append)

lemma emitted_append: "trace w' = trace w @ es \<Longrightarrow> emitted w w' = es"
  by (simp add: emitted_def)

text \<open>
  \<open>withTempDir\<close> in terms of the callback's outcome: an exception leaves through the
  first branch, with the world as the callback left it.
\<close>

lemma withTempDir_eq:
  "withTempDir T cb w =
     (case cb (tmpPathOf T w) (scopeEntered T w) of
        (Inl e, w3) \<Rightarrow> (Inl e, w3)
      | (Inr v, w3) \<Rightarrow> (Inr Undefined, scopeExited T (tmpPathOf T w) w3))"
  by (simp add: withTempDir_def spawnSync_def console_log_def tmpPathOf_def scopeEntered_def
        scopeExited_def Let_def split: prod.splits sum.splits)

text \<open>
  The callback of \<open>mavenDeploySnapshotFromBazel\<close> never throws; it adds the \<^verbatim>\<open>unzip\<close> and
  the \<^verbatim>\<open>mvn\<close> invocation to the trace.
\<close>

lemma deployCallback_fst: "fst (deployCallback T sp aid p w) = Inr Undefined"
  by (simp add: deployCallback_def spawnSync_def Let_def split: prod.splits)

lemma deployCallback_trace:
  "trace (snd (deployCallback T sp aid p w)) =
     trace w @
     [Spawn ''unzip'' [''bazel-bin/'' @ aid @ ''_bundle.jar'', ''-d'', p],
      Spawn ''mvn'' (mvnArgs sp p
         (collectJarArgs (snd (snd (T ''unzip'' [''bazel-bin/'' @ aid @ ''_bundle.jar'', ''-d'', p]
                                     (ext w, fsys w))))
            (p @ ''/'' @ aid @ ''-1.0-SNAPSHOT'') JAR_SUFFIX_BY_MVN_ARG []))]"
  by (simp add: deployCallback_def spawnSync_def Let_def split: prod.splits)

lemma deployCallback_eq:
  "deployCallback T sp aid p w = (Inr Undefined, snd (deployCallback T sp aid p w))"
  using deployCallback_fst [of T sp aid p w]
  by (cases "deployCallback T sp aid p w") simp

lemma mavenDeploy_eq:
  "mavenDeploySnapshotFromBazel T sp aid w =
     (Inr Undefined,
      scopeExited T (tmpPathOf T w)
        (snd (deployCallback T sp aid (tmpPathOf T w) (scopeEntered T w))))"
  unfolding mavenDeploySnapshotFromBazel_def withTempDir_eq
  by (subst deployCallback_eq) simp

lemma mavenDeploy_trace:
  "trace (snd (mavenDeploySnapshotFromBazel T sp aid w)) =
     trace w @
     [Spawn ''mktemp'' [''-d''],
      Log (''Created temp directory: '' @ tmpPathOf T w),
      Spawn ''unzip'' [''bazel-bin/'' @ aid @ ''_bundle.jar'', ''-d'', tmpPathOf T w],
      Spawn ''mvn'' (mvnArgs sp (tmpPathOf T w)
         (collectJarArgs (extracted T aid w)
            (tmpPathOf T w @ ''/'' @ aid @ ''-1.0-SNAPSHOT'') JAR_SUFFIX_BY_MVN_ARG [])),
      Spawn ''rm'' [''-R'', tmpPathOf T w],
      Log (''Deleted temp directory: '' @ tmpPathOf T w)]"
  by (simp add: mavenDeploy_eq scopeExited_def deployCallback_trace scopeEntered_def
        extracted_def)

text \<open>
  The loop: every iteration completes, so the loop runs through the whole list.
\<close>

lemma deployEach_step:
  "deployEach T sp (a # ids) w =
     deployEach T sp ids (snd (mavenDeploySnapshotFromBazel T sp a w))"
proof -
  obtain w' where e: "mavenDeploySnapshotFromBazel T sp a w = (Inr Undefined, w')"
    using mavenDeploy_eq by blast
  show ?thesis by (simp add: e)
qed

lemma deployEach_fst: "fst (deployEach T sp ids w) = Inr Undefined"
proof (induction ids arbitrary: w)
  case Nil
  show ?case by simp
next
  case (Cons a ids)
  show ?case by (simp only: deployEach_step Cons.IH)
qed

lemma deployEach_trace:
  "\<exists>es. trace (snd (deployEach T sp ids w)) = trace w @ es
     \<and> outline es = concat (map (\<lambda>a. [(''mktemp'', [''-d'']),
            (''unzip'', [''bazel-bin/'' @ a @ ''_bundle.jar'']),
            (''mvn'', [''deploy:deploy-file'']),
            (''rm'', [''-R''])]) ids)
     \<and> length (mvnCalls es) = length ids"
proof (induction ids arbitrary: w)
  case Nil
  show ?case by (simp add: outline_def mvnCalls_def)
next
  case (Cons a ids)
  define w' where "w' = snd (mavenDeploySnapshotFromBazel T sp a w)"
  from Cons.IH [of w'] obtain es where
    es: "trace (snd (deployEach T sp ids w')) = trace w' @ es"
      "outline es = concat (map (\<lambda>a. [(''mktemp'', [''-d'']),
            (''unzip'', [''bazel-bin/'' @ a @ ''_bundle.jar'']),
            (''mvn'', [''deploy:deploy-file'']),
            (''rm'', [''-R''])]) ids)"
      "length (mvnCalls es) = length ids"
    by blast
  let ?new = "[Spawn ''mktemp'' [''-d''],
      Log (''Created temp directory: '' @ tmpPathOf T w),
      Spawn ''unzip'' [''bazel-bin/'' @ a @ ''_bundle.jar'', ''-d'', tmpPathOf T w],
      Spawn ''mvn'' (mvnArgs sp (tmpPathOf T w)
         (collectJarArgs (extracted T a w)
            (tmpPathOf T w @ ''/'' @ a @ ''-1.0-SNAPSHOT'') JAR_SUFFIX_BY_MVN_ARG [])),
      Spawn ''rm'' [''-R'', tmpPathOf T w],
      Log (''Deleted temp directory: '' @ tmpPathOf T w)]"
  have tr: "trace w' = trace w @ ?new"
    unfolding w'_def by (rule mavenDeploy_trace)
  have step: "deployEach T sp (a # ids) w = deployEach T sp ids w'"
    unfolding w'_def by (rule deployEach_step)
  have t: "trace (snd (deployEach T sp (a # ids) w)) = trace w @ (?new @ es)"
    by (simp only: step es(1) tr append_assoc)
  have o: "outline ?new = [(''mktemp'', [''-d'']),
            (''unzip'', [''bazel-bin/'' @ a @ ''_bundle.jar'']),
            (''mvn'', [''deploy:deploy-file'']),
            (''rm'', [''-R''])]"
    by (simp add: outline_def mvnArgs_def)
  have m: "length (mvnCalls ?new) = 1"
    by (simp add: mvnCalls_def)
  have o': "outline (?new @ es) = concat (map (\<lambda>a. [(''mktemp'', [''-d'']),
            (''unzip'', [''bazel-bin/'' @ a @ ''_bundle.jar'']),
            (''mvn'', [''deploy:deploy-file'']),
            (''rm'', [''-R''])]) (a # ids))"
    by (simp only: outline_append o es(2)) simp
  have m': "length (mvnCalls (?new @ es)) = length (a # ids)"
    by (simp only: mvnCalls_append length_append m es(3)) simp
  show ?case
    using t o' m' by blast
qed

lemma deployEach_emitted:
  "outline (emitted w (snd (deployEach T sp ids w))) =
     concat (map (\<lambda>a. [(''mktemp'', [''-d'']),
            (''unzip'', [''bazel-bin/'' @ a @ ''_bundle.jar'']),
            (''mvn'', [''deploy:deploy-file'']),
            (''rm'', [''-R''])]) ids)
   \<and> length (mvnCalls (emitted w (snd (deployEach T sp ids w)))) = length ids"
proof -
  from deployEach_trace [of T sp ids w] obtain es where
    es: "trace (snd (deployEach T sp ids w)) = trace w @ es"
      "outline es = concat (map (\<lambda>a. [(''mktemp'', [''-d'']),
            (''unzip'', [''bazel-bin/'' @ a @ ''_bundle.jar'']),
            (''mvn'', [''deploy:deploy-file'']),
            (''rm'', [''-R''])]) ids)"
      "length (mvnCalls es) = length ids"
    by blast
  have "emitted w (snd (deployEach T sp ids w)) = es"
    using es(1) by (rule emitted_append)
  then show ?thesis using es(2,3) by simp
qed

text \<open>
  The settings document and \<open>main\<close>.
\<close>

lemma env_scopeEntered: "env (scopeEntered T w) = env w"
  by (simp add: scopeEntered_def)

lemma credential_names_own:
  "''SONATYPE_USERNAME'' \<notin> set objectPrototypeNames"
  "''SONATYPE_PASSWORD'' \<notin> set objectPrototypeNames"
  by (simp_all add: objectPrototypeNames_def)

lemma getEnvOrThrow_own:
  "name \<notin> set objectPrototypeNames \<Longrightarrow>
   getEnvOrThrow name w =
     (case env w name of
        None \<Rightarrow> Inl (Error (''Environment variable not set: '' @ name))
      | Some val \<Rightarrow> Inr (Str val))"
  by (simp add: getEnvOrThrow_def process_env_def split: option.splits)

lemma writeSettings_missing:
  assumes "env w ''SONATYPE_USERNAME'' = None \<or> env w ''SONATYPE_PASSWORD'' = None"
  shows "writeSettings path w =
     (Inl (Error (''Environment variable not set: '' @
        (if env w ''SONATYPE_USERNAME'' = None then ''SONATYPE_USERNAME''
         else ''SONATYPE_PASSWORD''))), w)"
  using assms
  by (auto simp: writeSettings_def getEnvOrThrow_own credential_names_own split: option.splits)

lemma writeSettings_present:
  assumes "env w ''SONATYPE_USERNAME'' = Some u" "env w ''SONATYPE_PASSWORD'' = Some p"
  shows "writeSettings path w =
     (if existsSync (fsys w) path then (Inl (EEXIST path), w)
      else (Inr Undefined,
            w\<lparr>fsys := (fsys w)(path \<mapsto> File (settingsXml u p)),
              trace := trace w @ [Write path (settingsXml u p)]\<rparr>))"
  using assms
  by (auto simp: writeSettings_def getEnvOrThrow_own credential_names_own writeFileSync_def
      existsSync_def
      split: option.splits)

lemma main_eq:
  "main T w =
     (case writeSettings (tmpPathOf T w @ ''/settings.xml'') (scopeEntered T w) of
        (Inl e, w1) \<Rightarrow> (Inl e, w1)
      | (Inr v, w1) \<Rightarrow>
          (Inr Undefined,
           scopeExited T (tmpPathOf T w)
             (snd (deployEach T (tmpPathOf T w @ ''/settings.xml'') artifactIds w1))))"
proof -
  have d: "\<And>sp w1. deployEach T sp artifactIds w1 =
      (Inr Undefined, snd (deployEach T sp artifactIds w1))"
    using deployEach_fst by (metis prod.collapse)
  show ?thesis
    unfolding main_def withTempDir_eq mainCallback_def Let_def
    by (subst d) (simp split: prod.splits sum.splits)
qed

lemma main_fst:
  "fst (main T w) =
     (case fst (writeSettings (tmpPathOf T w @ ''/settings.xml'') (scopeEntered T w)) of
        Inl e \<Rightarrow> Inl e | Inr v \<Rightarrow> Inr Undefined)"
  by (simp add: main_eq split: prod.splits sum.splits)

text \<open>
  Two sets of tools that differ in nothing but the exit statuses they report.
\<close>

lemma agree_deployCallback:
  assumes "\<And>c a s. snd (T c a s) = snd (T' c a s)"
  shows "deployCallback T sp a p w = deployCallback T' sp a p w"
  by (simp add: deployCallback_def spawnSync_def Let_def split_beta assms)

lemma agree_scope:
  assumes "\<And>c a s. snd (T c a s) = snd (T' c a s)"
    and "\<And>c a s. stdout (fst (T c a s)) = stdout (fst (T' c a s))"
  shows "tmpPathOf T w = tmpPathOf T' w" and "scopeEntered T w = scopeEntered T' w"
    and "scopeExited T p w = scopeExited T' p w"
  by (simp_all add: tmpPathOf_def scopeEntered_def scopeExited_def assms)

lemma agree_withTempDir:
  assumes "\<And>c a s. snd (T c a s) = snd (T' c a s)"
    and "\<And>c a s. stdout (fst (T c a s)) = stdout (fst (T' c a s))"
  shows "withTempDir T cb w = withTempDir T' cb w"
  by (simp add: withTempDir_eq agree_scope [OF assms] split: prod.splits sum.splits)

lemma agree_mavenDeploy:
  assumes "\<And>c a s. snd (T c a s) = snd (T' c a s)"
    and "\<And>c a s. stdout (fst (T c a s)) = stdout (fst (T' c a s))"
  shows "mavenDeploySnapshotFromBazel T sp a w = mavenDeploySnapshotFromBazel T' sp a w"
proof -
  have "deployCallback T sp a = deployCallback T' sp a"
    using agree_deployCallback [of T T', OF assms(1)] by (intro ext)
  then show ?thesis
    by (simp add: mavenDeploySnapshotFromBazel_def agree_withTempDir [of T T', OF assms])
qed

lemma agree_deployEach:
  assumes "\<And>c a s. snd (T c a s) = snd (T' c a s)"
    and "\<And>c a s. stdout (fst (T c a s)) = stdout (fst (T' c a s))"
  shows "deployEach T sp ids w = deployEach T' sp ids w"
  by (induction ids arbitrary: w)
     (simp_all add: agree_mavenDeploy [of T T', OF assms] split: prod.splits sum.splits)

text \<open>
  The POM's path is none of the three jar paths.
\<close>

lemma pom_not_jar:
  "p @ ''/pom.xml'' \<noteq> p @ ''/'' @ a @ ''-1.0-SNAPSHOT'' @ sfx @ ''.jar''"
proof
  assume "p @ ''/pom.xml'' = p @ ''/'' @ a @ ''-1.0-SNAPSHOT'' @ sfx @ ''.jar''"
  then have "last (p @ ''/pom.xml'') = last (p @ ''/'' @ a @ ''-1.0-SNAPSHOT'' @ sfx @ ''.jar'')"
    by simp
  then show False by simp
qed

text \<open>
  Values of the concrete runs.
\<close>

lemma demo_tmpPath: "tmpPathOf demoTools demoWorld = ''/tmp/tmp.a''"
  by (simp add: tmpPathOf_def demoTools_def demoWorld_def demoFs_def existsSync_def
        String_of_def trim_def is_space_def)

lemma noPassword_tmpPath: "tmpPathOf demoTools noPassword = ''/tmp/tmp.a''"
  by (simp add: tmpPathOf_def demoTools_def noPassword_def demoFs_def existsSync_def
        String_of_def trim_def is_space_def)

lemma noCredentials_tmpPath: "tmpPathOf demoTools noCredentials = ''/tmp/tmp.a''"
  by (simp add: tmpPathOf_def demoTools_def noCredentials_def demoFs_def existsSync_def
        String_of_def trim_def is_space_def)

lemma demo_main_ok: "fst (main demoTools demoWorld) = Inr Undefined"
  by (simp add: main_fst demo_tmpPath writeSettings_def getEnvOrThrow_own credential_names_own
        writeFileSync_def
        existsSync_def scopeEntered_def demoTools_def demoWorld_def demoFs_def)

lemma demo_extracted:
  "collectJarArgs (extracted demoTools ''closure-compiler'' demoWorld)
     ''/tmp/tmp.a/closure-compiler-1.0-SNAPSHOT'' JAR_SUFFIX_BY_MVN_ARG [] =
   [''-Dfile=/tmp/tmp.a/closure-compiler-1.0-SNAPSHOT.jar'',
    ''-Dsources=/tmp/tmp.a/closure-compiler-1.0-SNAPSHOT-sources.jar'']"
  unfolding extracted_def demo_tmpPath
  by (simp add: JAR_SUFFIX_BY_MVN_ARG_def demoTools_def demoWorld_def demoFs_def
        existsSync_def Let_def)

lemma demo_extracted_externs:
  "extracted demoTools ''closure-compiler-externs'' demoWorld ''/tmp/tmp.a/pom.xml'' = None"
  unfolding extracted_def demo_tmpPath
  by (simp add: demoTools_def demoWorld_def demoFs_def existsSync_def)

lemma demo_externs_args:
  "collectJarArgs (extracted demoTools ''closure-compiler-externs'' demoWorld)
     ''/tmp/tmp.a/closure-compiler-externs-1.0-SNAPSHOT'' JAR_SUFFIX_BY_MVN_ARG [] = []"
  unfolding extracted_def demo_tmpPath
  by (simp add: JAR_SUFFIX_BY_MVN_ARG_def demoTools_def demoWorld_def demoFs_def
        existsSync_def Let_def)

section \<open>Missing credentials\<close>

text \<open>
  C1 says that a run with \<^verbatim>\<open>SONATYPE_USERNAME\<close> or \<^verbatim>\<open>SONATYPE_PASSWORD\<close> unset fails before
  any temporary directory is created. The variables are read inside the callback of
  the outer \<open>withTempDir\<close>, after \<^verbatim>\<open>mktemp -d\<close> has run. With neither variable set and
  the concrete tools, the run fails naming \<^verbatim>\<open>SONATYPE_USERNAME\<close>, \<^verbatim>\<open>mktemp\<close> is the one
  command spawned, and the directory \<^verbatim>\<open>/tmp/tmp.a\<close>, which did not exist before, exists
  afterwards.
\<close>

theorem credentials_read_after_mktemp:
  "env noCredentials ''SONATYPE_USERNAME'' = None
   \<and> \<not> existsSync (fsys noCredentials) ''/tmp/tmp.a''
   \<and> fst (main demoTools noCredentials) =
       Inl (Error ''Environment variable not set: SONATYPE_USERNAME'')
   \<and> spawned (trace (snd (main demoTools noCredentials))) = [(''mktemp'', [''-d''])]
   \<and> existsSync (fsys (snd (main demoTools noCredentials))) ''/tmp/tmp.a''"
proof -
  have m: "env (scopeEntered demoTools noCredentials) ''SONATYPE_USERNAME'' = None
         \<or> env (scopeEntered demoTools noCredentials) ''SONATYPE_PASSWORD'' = None"
    by (simp add: scopeEntered_def noCredentials_def)
  have run: "main demoTools noCredentials =
      (Inl (Error ''Environment variable not set: SONATYPE_USERNAME''),
       scopeEntered demoTools noCredentials)"
    by (simp add: main_eq writeSettings_missing [OF m] env_scopeEntered)
       (simp add: noCredentials_def)
  have a: "env noCredentials ''SONATYPE_USERNAME'' = None"
    by (simp add: noCredentials_def)
  have b: "\<not> existsSync (fsys noCredentials) ''/tmp/tmp.a''"
    by (simp add: noCredentials_def demoFs_def existsSync_def)
  have c: "spawned (trace (scopeEntered demoTools noCredentials)) = [(''mktemp'', [''-d''])]"
    by (simp add: scopeEntered_def noCredentials_def)
  have d: "existsSync (fsys (scopeEntered demoTools noCredentials)) ''/tmp/tmp.a''"
    by (simp add: scopeEntered_def noCredentials_def demoTools_def demoFs_def existsSync_def)
  show ?thesis
    using a b c d by (simp add: run)
qed

text \<open>
  C1, as the code has it. For every set of tools and every world in which at least
  one of the two variables is unset, \<open>main\<close> throws the error whose message names the
  first unset variable in reading order (the user name, else the password). Up to
  then the script has spawned \<^verbatim>\<open>mktemp -d\<close> once and logged the directory; it has
  written no file and spawned nothing else, and the surroundings are as \<^verbatim>\<open>mktemp\<close>
  left them.
\<close>

theorem missing_credential_fails_after_mktemp:
  assumes "env w ''SONATYPE_USERNAME'' = None \<or> env w ''SONATYPE_PASSWORD'' = None"
  shows "fst (main T w) =
           Inl (Error (''Environment variable not set: '' @
             (if env w ''SONATYPE_USERNAME'' = None then ''SONATYPE_USERNAME''
              else ''SONATYPE_PASSWORD'')))
       \<and> emitted w (snd (main T w)) =
           [Spawn ''mktemp'' [''-d''], Log (''Created temp directory: '' @ tmpPathOf T w)]
       \<and> (ext (snd (main T w)), fsys (snd (main T w))) = snd (T ''mktemp'' [''-d''] (ext w, fsys w))"
proof -
  have e: "env (scopeEntered T w) ''SONATYPE_USERNAME'' = None
         \<or> env (scopeEntered T w) ''SONATYPE_PASSWORD'' = None"
    using assms by (simp add: env_scopeEntered)
  have m: "main T w =
     (Inl (Error (''Environment variable not set: '' @
        (if env w ''SONATYPE_USERNAME'' = None then ''SONATYPE_USERNAME''
         else ''SONATYPE_PASSWORD''))), scopeEntered T w)"
    by (simp add: main_eq writeSettings_missing [OF e] env_scopeEntered)
  show ?thesis
    by (simp add: m scopeEntered_def emitted_def)
qed

theorem missing_credential_fails_after_mktemp_witness:
  "fst (main demoTools noCredentials) =
       Inl (Error ''Environment variable not set: SONATYPE_USERNAME'')
   \<and> emitted noCredentials (snd (main demoTools noCredentials)) =
       [Spawn ''mktemp'' [''-d''], Log ''Created temp directory: /tmp/tmp.a'']
   \<and> fst (main demoTools noPassword) =
       Inl (Error ''Environment variable not set: SONATYPE_PASSWORD'')
   \<and> emitted noPassword (snd (main demoTools noPassword)) =
       [Spawn ''mktemp'' [''-d''], Log ''Created temp directory: /tmp/tmp.a'']"
proof -
  have h1: "env noCredentials ''SONATYPE_USERNAME'' = None
          \<or> env noCredentials ''SONATYPE_PASSWORD'' = None"
    by (simp add: noCredentials_def)
  have h2: "env noPassword ''SONATYPE_USERNAME'' = None
          \<or> env noPassword ''SONATYPE_PASSWORD'' = None"
    by (simp add: noPassword_def)
  have u1: "env noCredentials ''SONATYPE_USERNAME'' = None"
    by (simp add: noCredentials_def)
  have u2: "env noPassword ''SONATYPE_USERNAME'' \<noteq> None"
    by (simp add: noPassword_def)
  show ?thesis
    using missing_credential_fails_after_mktemp [OF h1, of demoTools]
          missing_credential_fails_after_mktemp [OF h2, of demoTools]
    by (simp add: u1 u2 noCredentials_tmpPath noPassword_tmpPath)
qed

section \<open>The scope of a temporary directory\<close>

text \<open>
  C2 says that the directory of \<open>withTempDir\<close> is removed whether the callback returns
  or throws. The run without \<^verbatim>\<open>SONATYPE_PASSWORD\<close> is a run whose callback throws: the
  trace ends with the log line of the creation, no \<^verbatim>\<open>rm\<close> is spawned, and the directory
  \<^verbatim>\<open>/tmp/tmp.a\<close> is still there. In the run with both variables set the callback
  returns and the directory is gone.
\<close>

theorem withTempDir_leaves_directory_on_throw:
  "fst (main demoTools noPassword) =
       Inl (Error ''Environment variable not set: SONATYPE_PASSWORD'')
   \<and> trace (snd (main demoTools noPassword)) =
       [Spawn ''mktemp'' [''-d''], Log ''Created temp directory: /tmp/tmp.a'']
   \<and> fsys (snd (main demoTools noPassword)) ''/tmp/tmp.a'' = Some Dir
   \<and> fst (main demoTools demoWorld) = Inr Undefined
   \<and> fsys (snd (main demoTools demoWorld)) ''/tmp/tmp.a'' = None"
proof -
  have m: "env (scopeEntered demoTools noPassword) ''SONATYPE_USERNAME'' = None
         \<or> env (scopeEntered demoTools noPassword) ''SONATYPE_PASSWORD'' = None"
    by (simp add: scopeEntered_def noPassword_def)
  have run: "main demoTools noPassword =
      (Inl (Error ''Environment variable not set: SONATYPE_PASSWORD''),
       scopeEntered demoTools noPassword)"
    by (simp add: main_eq writeSettings_missing [OF m] env_scopeEntered)
       (simp add: noPassword_def)
  have t: "trace (scopeEntered demoTools noPassword) =
       [Spawn ''mktemp'' [''-d''], Log ''Created temp directory: /tmp/tmp.a'']"
    by (simp add: scopeEntered_def noPassword_tmpPath) (simp add: noPassword_def)
  have d: "fsys (scopeEntered demoTools noPassword) ''/tmp/tmp.a'' = Some Dir"
    by (simp add: scopeEntered_def noPassword_def demoTools_def demoFs_def existsSync_def)
  obtain w1 where ws: "writeSettings (''/tmp/tmp.a'' @ ''/settings.xml'')
        (scopeEntered demoTools demoWorld) = (Inr Undefined, w1)"
    by (simp add: writeSettings_def getEnvOrThrow_own credential_names_own writeFileSync_def
        existsSync_def scopeEntered_def demoTools_def demoWorld_def demoFs_def)
  have "main demoTools demoWorld =
      (Inr Undefined,
       scopeExited demoTools ''/tmp/tmp.a''
         (snd (deployEach demoTools (''/tmp/tmp.a'' @ ''/settings.xml'') artifactIds w1)))"
    unfolding main_eq [of demoTools demoWorld] demo_tmpPath ws by simp
  then have gone: "fsys (snd (main demoTools demoWorld)) ''/tmp/tmp.a'' = None"
    by (simp add: scopeExited_def demoTools_def removeTree_def)
  show ?thesis
    using t d gone demo_main_ok by (simp add: run)
qed

text \<open>
  C8 says that the result of \<open>withTempDir\<close> is the value its callback produced. The
  function has no \<^verbatim>\<open>return\<close> statement: a callback that returns the path it was given
  makes \<open>withTempDir\<close> return \<^verbatim>\<open>undefined\<close>.
\<close>

theorem withTempDir_drops_value:
  "fst (echoCallback (tmpPathOf demoTools demoWorld) (scopeEntered demoTools demoWorld)) =
       Inr (Str ''/tmp/tmp.a'')
   \<and> fst (withTempDir demoTools echoCallback demoWorld) = Inr Undefined"
  by (simp add: withTempDir_eq echoCallback_def demo_tmpPath)

text \<open>
  C8, as the code has it. When the callback returns, whatever its value, \<open>withTempDir\<close>
  returns \<^verbatim>\<open>undefined\<close> after the two closing statements have run on the world the
  callback left, so the two results agree exactly for a callback that returns
  \<^verbatim>\<open>undefined\<close>. When the callback throws, \<open>withTempDir\<close> throws the same error, in the
  world the callback left. Both callbacks of the script return \<^verbatim>\<open>undefined\<close> when they
  return.
\<close>

theorem withTempDir_result:
  "(callback (tmpPathOf T w) (scopeEntered T w) = (Inr v, w3) \<longrightarrow>
      withTempDir T callback w = (Inr Undefined, scopeExited T (tmpPathOf T w) w3))
   \<and> (callback (tmpPathOf T w) (scopeEntered T w) = (Inl e, w3) \<longrightarrow>
      withTempDir T callback w = (Inl e, w3))
   \<and> fst (deployCallback T settingsPath artifactId tmpPath w') = Inr Undefined
   \<and> (fst (mainCallback T tmpPath w') = Inr v' \<longrightarrow> v' = Undefined)"
proof -
  have scope: "(callback (tmpPathOf T w) (scopeEntered T w) = (Inr v, w3) \<longrightarrow>
      withTempDir T callback w = (Inr Undefined, scopeExited T (tmpPathOf T w) w3))
   \<and> (callback (tmpPathOf T w) (scopeEntered T w) = (Inl e, w3) \<longrightarrow>
      withTempDir T callback w = (Inl e, w3))"
    by (simp add: withTempDir_eq)
  have inner: "fst (deployCallback T settingsPath artifactId tmpPath w') = Inr Undefined"
    by (rule deployCallback_fst)
  have outer: "fst (mainCallback T tmpPath w') = Inr v' \<longrightarrow> v' = Undefined"
    by (auto simp: mainCallback_def Let_def split: prod.splits sum.splits)
  show ?thesis
    using scope inner outer by blast
qed

theorem withTempDir_result_witness:
  "withTempDir demoTools echoCallback demoWorld =
       (Inr Undefined, scopeExited demoTools ''/tmp/tmp.a'' (scopeEntered demoTools demoWorld))
   \<and> withTempDir demoTools throwingCallback demoWorld =
       (Inl (Error ''boom''), scopeEntered demoTools demoWorld)
   \<and> fst (mainCallback demoTools ''/tmp/tmp.a'' (scopeEntered demoTools demoWorld)) =
       Inr Undefined"
proof -
  let ?w = "scopeEntered demoTools demoWorld"
  have a: "echoCallback (tmpPathOf demoTools demoWorld) ?w = (Inr (Str ''/tmp/tmp.a''), ?w)"
    by (simp add: echoCallback_def demo_tmpPath)
  have b: "throwingCallback (tmpPathOf demoTools demoWorld) ?w = (Inl (Error ''boom''), ?w)"
    by (simp add: throwingCallback_def)
  obtain r w1 where c: "mainCallback demoTools ''/tmp/tmp.a'' ?w = (r, w1)"
    by (cases "mainCallback demoTools ''/tmp/tmp.a'' ?w")
  obtain v' where r: "r = Inr v'"
    using demo_main_ok c by (cases r) (simp_all add: main_def withTempDir_eq demo_tmpPath)
  have m: "fst (mainCallback demoTools ''/tmp/tmp.a'' ?w) = Inr v'"
    by (simp add: c r)
  have "v' = Undefined"
    using withTempDir_result [of echoCallback demoTools demoWorld "Str ''/tmp/tmp.a''" ?w
            "Error ''boom''" "[]" "[]" "''/tmp/tmp.a''" ?w v'] m
    by blast
  then have main_value: "fst (mainCallback demoTools ''/tmp/tmp.a'' ?w) = Inr Undefined"
    using m by simp
  show ?thesis
    using withTempDir_result [of echoCallback demoTools demoWorld "Str ''/tmp/tmp.a''" ?w
            "Error ''boom''" "[]" "[]" "''/tmp/tmp.a''" ?w v']
          withTempDir_result [of throwingCallback demoTools demoWorld Undefined ?w
            "Error ''boom''" "[]" "[]" "''/tmp/tmp.a''" ?w v'] a b main_value
    by (simp add: demo_tmpPath)
qed

section \<open>Classifier resolution\<close>

text \<open>
  C3. For every artifact identifier and extraction directory, the loop over the
  classifier table yields one token \<open>argument=path\<close> for exactly those of the three
  files \<open>dir/id-1.0-SNAPSHOT.jar\<close>, \<open>dir/id-1.0-SNAPSHOT-sources.jar\<close> and
  \<open>dir/id-1.0-SNAPSHOT-javadoc.jar\<close> that exist, in the order \<open>-Dfile\<close>, \<open>-Dsources\<close>,
  \<open>-Djavadoc\<close>. The result is a plain list: a missing file only shortens it.
\<close>

theorem collectJarArgs_resolves:
  "collectJarArgs fs (dir @ ''/'' @ artifactId @ ''-1.0-SNAPSHOT'') JAR_SUFFIX_BY_MVN_ARG [] =
     (if existsSync fs (dir @ ''/'' @ artifactId @ ''-1.0-SNAPSHOT.jar'')
      then [''-Dfile='' @ dir @ ''/'' @ artifactId @ ''-1.0-SNAPSHOT.jar''] else [])
     @ (if existsSync fs (dir @ ''/'' @ artifactId @ ''-1.0-SNAPSHOT-sources.jar'')
        then [''-Dsources='' @ dir @ ''/'' @ artifactId @ ''-1.0-SNAPSHOT-sources.jar''] else [])
     @ (if existsSync fs (dir @ ''/'' @ artifactId @ ''-1.0-SNAPSHOT-javadoc.jar'')
        then [''-Djavadoc='' @ dir @ ''/'' @ artifactId @ ''-1.0-SNAPSHOT-javadoc.jar''] else [])"
  by (simp add: JAR_SUFFIX_BY_MVN_ARG_def Let_def)

theorem collectJarArgs_resolves_witness:
  "collectJarArgs [''/x/pkg-a-1.0-SNAPSHOT.jar'' \<mapsto> File ''classes'']
       (''/x'' @ ''/'' @ ''pkg-a'' @ ''-1.0-SNAPSHOT'') JAR_SUFFIX_BY_MVN_ARG [] =
     [''-Dfile=/x/pkg-a-1.0-SNAPSHOT.jar'']
   \<and> collectJarArgs [''/x/pkg-a-1.0-SNAPSHOT-javadoc.jar'' \<mapsto> File ''docs'',
                      ''/x/pkg-a-1.0-SNAPSHOT-sources.jar'' \<mapsto> File ''sources'',
                      ''/x/pkg-a-1.0-SNAPSHOT.jar'' \<mapsto> File ''classes'']
       (''/x'' @ ''/'' @ ''pkg-a'' @ ''-1.0-SNAPSHOT'') JAR_SUFFIX_BY_MVN_ARG [] =
     [''-Dfile=/x/pkg-a-1.0-SNAPSHOT.jar'',
      ''-Dsources=/x/pkg-a-1.0-SNAPSHOT-sources.jar'',
      ''-Djavadoc=/x/pkg-a-1.0-SNAPSHOT-javadoc.jar'']
   \<and> collectJarArgs Map.empty
       (''/x'' @ ''/'' @ ''pkg-a'' @ ''-1.0-SNAPSHOT'') JAR_SUFFIX_BY_MVN_ARG [] = []"
  using collectJarArgs_resolves [of "[''/x/pkg-a-1.0-SNAPSHOT.jar'' \<mapsto> File ''classes'']"
          "''/x''" "''pkg-a''"]
        collectJarArgs_resolves [of "[''/x/pkg-a-1.0-SNAPSHOT-javadoc.jar'' \<mapsto> File ''docs'',
                      ''/x/pkg-a-1.0-SNAPSHOT-sources.jar'' \<mapsto> File ''sources'',
                      ''/x/pkg-a-1.0-SNAPSHOT.jar'' \<mapsto> File ''classes'']"
          "''/x''" "''pkg-a''"]
        collectJarArgs_resolves [of Map.empty "''/x''" "''pkg-a''"]
  by (simp add: existsSync_def)

section \<open>The settings document\<close>

text \<open>
  C4. Writing the settings document to a path that exists fails and leaves the world
  as it was, the existing file included. With both credentials set (the document
  cannot be composed without them) the failure is \<open>EEXIST\<close>; and where the path does
  not exist the document is written, and writing it a second time to the same path
  throws \<open>EEXIST\<close> and leaves the first document in place.
\<close>

theorem settings_creation_conflict:
  "(existsSync (fsys w) path \<longrightarrow>
      isl (fst (writeSettings path w)) \<and> snd (writeSettings path w) = w)
   \<and> (env w ''SONATYPE_USERNAME'' = Some u \<and> env w ''SONATYPE_PASSWORD'' = Some p \<longrightarrow>
        (existsSync (fsys w) path \<longrightarrow> writeSettings path w = (Inl (EEXIST path), w))
      \<and> (\<not> existsSync (fsys w) path \<longrightarrow>
            fst (writeSettings path w) = Inr Undefined
          \<and> fsys (snd (writeSettings path w)) path = Some (File (settingsXml u p))
          \<and> writeSettings path (snd (writeSettings path w)) =
              (Inl (EEXIST path), snd (writeSettings path w))))"
proof -
  have always: "isl (fst (writeSettings path w)) \<and> snd (writeSettings path w) = w"
    if ex: "existsSync (fsys w) path"
  proof (cases "env w ''SONATYPE_USERNAME'' = None \<or> env w ''SONATYPE_PASSWORD'' = None")
    case True
    then show ?thesis by (simp add: writeSettings_missing)
  next
    case False
    then have "env w ''SONATYPE_USERNAME'' \<noteq> None" "env w ''SONATYPE_PASSWORD'' \<noteq> None"
      by simp_all
    then obtain u' p' where "env w ''SONATYPE_USERNAME'' = Some u'"
        "env w ''SONATYPE_PASSWORD'' = Some p'"
      by blast
    then show ?thesis using ex by (simp add: writeSettings_present)
  qed
  have given: "(existsSync (fsys w) path \<longrightarrow> writeSettings path w = (Inl (EEXIST path), w))
      \<and> (\<not> existsSync (fsys w) path \<longrightarrow>
            fst (writeSettings path w) = Inr Undefined
          \<and> fsys (snd (writeSettings path w)) path = Some (File (settingsXml u p))
          \<and> writeSettings path (snd (writeSettings path w)) =
              (Inl (EEXIST path), snd (writeSettings path w)))"
    if creds: "env w ''SONATYPE_USERNAME'' = Some u" "env w ''SONATYPE_PASSWORD'' = Some p"
  proof -
    let ?w' = "w\<lparr>fsys := (fsys w)(path \<mapsto> File (settingsXml u p)),
                 trace := trace w @ [Write path (settingsXml u p)]\<rparr>"
    have first: "writeSettings path w =
       (if existsSync (fsys w) path then (Inl (EEXIST path), w) else (Inr Undefined, ?w'))"
      using creds by (rule writeSettings_present)
    have "env ?w' ''SONATYPE_USERNAME'' = Some u" "env ?w' ''SONATYPE_PASSWORD'' = Some p"
      using creds by simp_all
    then have "writeSettings path ?w' =
       (if existsSync (fsys ?w') path then (Inl (EEXIST path), ?w')
        else (Inr Undefined,
              ?w'\<lparr>fsys := (fsys ?w')(path \<mapsto> File (settingsXml u p)),
                  trace := trace ?w' @ [Write path (settingsXml u p)]\<rparr>))"
      by (rule writeSettings_present)
    moreover have "existsSync (fsys ?w') path"
      by (simp add: existsSync_def)
    ultimately have second: "writeSettings path ?w' = (Inl (EEXIST path), ?w')"
      by simp
    show ?thesis
      using first second by simp
  qed
  show ?thesis
    using always given by blast
qed

theorem settings_creation_conflict_witness:
  "writeSettings ''bazel-bin/closure-compiler_bundle.jar'' demoWorld =
       (Inl (EEXIST ''bazel-bin/closure-compiler_bundle.jar''), demoWorld)
   \<and> isl (fst (writeSettings ''bazel-bin/closure-compiler_bundle.jar'' noPassword))
   \<and> snd (writeSettings ''bazel-bin/closure-compiler_bundle.jar'' noPassword) = noPassword
   \<and> fst (writeSettings ''/tmp/settings.xml'' demoWorld) = Inr Undefined
   \<and> writeSettings ''/tmp/settings.xml'' (snd (writeSettings ''/tmp/settings.xml'' demoWorld)) =
       (Inl (EEXIST ''/tmp/settings.xml''), snd (writeSettings ''/tmp/settings.xml'' demoWorld))"
proof -
  have u: "env demoWorld ''SONATYPE_USERNAME'' = Some ''ci-user''"
    by (simp add: demoWorld_def)
  have p: "env demoWorld ''SONATYPE_PASSWORD'' = Some ''s3cret''"
    by (simp add: demoWorld_def)
  have e1: "existsSync (fsys demoWorld) ''bazel-bin/closure-compiler_bundle.jar''"
    by (simp add: demoWorld_def demoFs_def existsSync_def)
  have e2: "\<not> existsSync (fsys demoWorld) ''/tmp/settings.xml''"
    by (simp add: demoWorld_def demoFs_def existsSync_def)
  have e3: "existsSync (fsys noPassword) ''bazel-bin/closure-compiler_bundle.jar''"
    by (simp add: noPassword_def demoFs_def existsSync_def)
  show ?thesis
    using settings_creation_conflict [of demoWorld "''bazel-bin/closure-compiler_bundle.jar''"
            "''ci-user''" "''s3cret''"]
          settings_creation_conflict [of demoWorld "''/tmp/settings.xml''"
            "''ci-user''" "''s3cret''"]
          settings_creation_conflict [of noPassword "''bazel-bin/closure-compiler_bundle.jar''"
            "''ci-user''" "''s3cret''"]
          u p e1 e2 e3
    by blast
qed

text \<open>
  C9 says that for every variable name the lookup throws exactly when the variable
  is unset. The lookup of line 146 is a property lookup: for the name \<^verbatim>\<open>toString\<close>, which
  no world here sets, it finds the function inherited from \<^verbatim>\<open>Object.prototype\<close>, the
  test against \<^verbatim>\<open>undefined\<close> fails, and \<open>getEnvOrThrow\<close> returns the function.
\<close>

theorem getEnvOrThrow_inherited_name:
  "env noCredentials ''toString'' = None
   \<and> getEnvOrThrow ''toString'' noCredentials = Inr (Inherited ''toString'')"
  by (simp add: getEnvOrThrow_def process_env_def objectPrototypeNames_def noCredentials_def)

text \<open>
  C9, as the code has it. \<open>getEnvOrThrow\<close> throws exactly when the variable is unset and
  its name is not one that \<^verbatim>\<open>process.env\<close> inherits. So for every name that is not
  inherited, the two credential names among them, it throws exactly when the variable
  is unset, with the message that names the variable. It returns the value of every
  variable that is set, the empty string included. With both credentials set to the
  empty string and the target path free, the settings document is written with an
  empty \<^verbatim>\<open>username\<close> and an empty \<^verbatim>\<open>password\<close> element.
\<close>

theorem getEnvOrThrow_only_unset:
  "(isl (getEnvOrThrow name w) \<longleftrightarrow> env w name = None \<and> name \<notin> set objectPrototypeNames)
   \<and> (name \<notin> set objectPrototypeNames \<longrightarrow>
        (isl (getEnvOrThrow name w) \<longleftrightarrow> env w name = None)
      \<and> (env w name = None \<longrightarrow>
           getEnvOrThrow name w = Inl (Error (''Environment variable not set: '' @ name))))
   \<and> (env w name = Some val \<longrightarrow> getEnvOrThrow name w = Inr (Str val))
   \<and> ''SONATYPE_USERNAME'' \<notin> set objectPrototypeNames
   \<and> ''SONATYPE_PASSWORD'' \<notin> set objectPrototypeNames
   \<and> (env w ''SONATYPE_USERNAME'' = Some [] \<and> env w ''SONATYPE_PASSWORD'' = Some []
        \<and> \<not> existsSync (fsys w) path \<longrightarrow>
        fst (writeSettings path w) = Inr Undefined
      \<and> fsys (snd (writeSettings path w)) path =
          Some (File (lines
            [''<settings xmlns='' @ [CHR 0x27] @ ''http://maven.apache.org/SETTINGS/1.0.0'' @ [CHR 0x27],
             ''          xmlns:xsi='' @ [CHR 0x27] @ ''http://www.w3.org/2001/XMLSchema-instance'' @ [CHR 0x27],
             ''          xsi:schemaLocation='' @ [CHR 0x27]
               @ ''http://maven.apache.org/SETTINGS/1.0.0 http://maven.apache.org/xsd/settings-1.0.0.xsd''
               @ [CHR 0x27] @ ''>'',
             ''  <servers>'',
             ''    <server>'',
             ''      <id>snapshot-repo-id</id>'',
             ''      <username></username>'',
             ''      <password></password>'',
             ''    </server>'',
             ''  </servers>'',
             ''</settings>''])))"
proof -
  have exact: "isl (getEnvOrThrow name w) \<longleftrightarrow>
      env w name = None \<and> name \<notin> set objectPrototypeNames"
    by (simp add: getEnvOrThrow_def process_env_def split: option.splits)
  have own: "(isl (getEnvOrThrow name w) \<longleftrightarrow> env w name = None)
      \<and> (env w name = None \<longrightarrow>
           getEnvOrThrow name w = Inl (Error (''Environment variable not set: '' @ name)))"
    if "name \<notin> set objectPrototypeNames"
    using that by (simp add: getEnvOrThrow_own split: option.splits)
  have given: "env w name = Some val \<longrightarrow> getEnvOrThrow name w = Inr (Str val)"
    by (simp add: getEnvOrThrow_def process_env_def)
  have x: "settingsXml [] [] = lines
            [''<settings xmlns='' @ [CHR 0x27] @ ''http://maven.apache.org/SETTINGS/1.0.0'' @ [CHR 0x27],
             ''          xmlns:xsi='' @ [CHR 0x27] @ ''http://www.w3.org/2001/XMLSchema-instance'' @ [CHR 0x27],
             ''          xsi:schemaLocation='' @ [CHR 0x27]
               @ ''http://maven.apache.org/SETTINGS/1.0.0 http://maven.apache.org/xsd/settings-1.0.0.xsd''
               @ [CHR 0x27] @ ''>'',
             ''  <servers>'',
             ''    <server>'',
             ''      <id>snapshot-repo-id</id>'',
             ''      <username></username>'',
             ''      <password></password>'',
             ''    </server>'',
             ''  </servers>'',
             ''</settings>'']"
    unfolding settingsXml_def by simp
  have d: "fst (writeSettings path w) = Inr Undefined
      \<and> fsys (snd (writeSettings path w)) path = Some (File (settingsXml [] []))"
    if "env w ''SONATYPE_USERNAME'' = Some []" "env w ''SONATYPE_PASSWORD'' = Some []"
      "\<not> existsSync (fsys w) path"
    using writeSettings_present [OF that(1,2), of path] that(3) by simp
  show ?thesis
    using exact own given credential_names_own d unfolding x by blast
qed

theorem getEnvOrThrow_only_unset_witness:
  "getEnvOrThrow ''SONATYPE_USERNAME'' noCredentials =
       Inl (Error ''Environment variable not set: SONATYPE_USERNAME'')
   \<and> getEnvOrThrow ''SONATYPE_USERNAME'' emptyCredentials = Inr (Str [])
   \<and> fst (writeSettings ''/tmp/settings.xml'' emptyCredentials) = Inr Undefined
   \<and> fsys (snd (writeSettings ''/tmp/settings.xml'' emptyCredentials)) ''/tmp/settings.xml'' =
          Some (File (lines
            [''<settings xmlns='' @ [CHR 0x27] @ ''http://maven.apache.org/SETTINGS/1.0.0'' @ [CHR 0x27],
             ''          xmlns:xsi='' @ [CHR 0x27] @ ''http://www.w3.org/2001/XMLSchema-instance'' @ [CHR 0x27],
             ''          xsi:schemaLocation='' @ [CHR 0x27]
               @ ''http://maven.apache.org/SETTINGS/1.0.0 http://maven.apache.org/xsd/settings-1.0.0.xsd''
               @ [CHR 0x27] @ ''>'',
             ''  <servers>'',
             ''    <server>'',
             ''      <id>snapshot-repo-id</id>'',
             ''      <username></username>'',
             ''      <password></password>'',
             ''    </server>'',
             ''  </servers>'',
             ''</settings>'']))"
proof -
  have o: "''SONATYPE_USERNAME'' \<notin> set objectPrototypeNames"
    by (simp add: objectPrototypeNames_def)
  have n: "env noCredentials ''SONATYPE_USERNAME'' = None"
    by (simp add: noCredentials_def)
  have u: "env emptyCredentials ''SONATYPE_USERNAME'' = Some []"
    by (simp add: emptyCredentials_def)
  have p: "env emptyCredentials ''SONATYPE_PASSWORD'' = Some []"
    by (simp add: emptyCredentials_def)
  have e: "\<not> existsSync (fsys emptyCredentials) ''/tmp/settings.xml''"
    by (simp add: emptyCredentials_def demoFs_def existsSync_def)
  have first: "getEnvOrThrow ''SONATYPE_USERNAME'' noCredentials =
       Inl (Error (''Environment variable not set: '' @ ''SONATYPE_USERNAME''))"
    using getEnvOrThrow_only_unset [of "''SONATYPE_USERNAME''" noCredentials "[]"
            "''/tmp/settings.xml''"] o n
    by blast
  have rest: "getEnvOrThrow ''SONATYPE_USERNAME'' emptyCredentials = Inr (Str [])
   \<and> fst (writeSettings ''/tmp/settings.xml'' emptyCredentials) = Inr Undefined
   \<and> fsys (snd (writeSettings ''/tmp/settings.xml'' emptyCredentials)) ''/tmp/settings.xml'' =
          Some (File (lines
            [''<settings xmlns='' @ [CHR 0x27] @ ''http://maven.apache.org/SETTINGS/1.0.0'' @ [CHR 0x27],
             ''          xmlns:xsi='' @ [CHR 0x27] @ ''http://www.w3.org/2001/XMLSchema-instance'' @ [CHR 0x27],
             ''          xsi:schemaLocation='' @ [CHR 0x27]
               @ ''http://maven.apache.org/SETTINGS/1.0.0 http://maven.apache.org/xsd/settings-1.0.0.xsd''
               @ [CHR 0x27] @ ''>'',
             ''  <servers>'',
             ''    <server>'',
             ''      <id>snapshot-repo-id</id>'',
             ''      <username></username>'',
             ''      <password></password>'',
             ''    </server>'',
             ''  </servers>'',
             ''</settings>'']))"
    using getEnvOrThrow_only_unset [of "''SONATYPE_USERNAME''" emptyCredentials "[]"
            "''/tmp/settings.xml''"] u p e
    by blast
  show ?thesis
    using first rest by simp
qed

section \<open>The deploy command\<close>

text \<open>
  C5. For every settings path, artifact identifier, set of tools and world,
  \<open>mavenDeploySnapshotFromBazel\<close> invokes \<^verbatim>\<open>mvn\<close> exactly once, and the argument list is the
  six fixed tokens in the order of the source (with the POM at \<^verbatim>\<open>pom.xml\<close> in the
  temporary directory) followed by the tokens of the classifier loop, of which there
  are at most three.
\<close>

theorem deploy_argument_list:
  "mvnCalls (emitted w (snd (mavenDeploySnapshotFromBazel T settingsPath artifactId w))) =
     [[''deploy:deploy-file'',
       ''--settings='' @ settingsPath,
       ''-DgeneratePom=false'',
       ''-DrepositoryId=snapshot-repo-id'',
       ''-Durl=https://oss.sonatype.org/content/repositories/snapshots/'',
       ''-DpomFile='' @ tmpPathOf T w @ ''/pom.xml'']
      @ collectJarArgs (extracted T artifactId w)
          (tmpPathOf T w @ ''/'' @ artifactId @ ''-1.0-SNAPSHOT'') JAR_SUFFIX_BY_MVN_ARG []]
   \<and> length (collectJarArgs (extracted T artifactId w)
          (tmpPathOf T w @ ''/'' @ artifactId @ ''-1.0-SNAPSHOT'') JAR_SUFFIX_BY_MVN_ARG []) \<le> 3"
proof -
  have "emitted w (snd (mavenDeploySnapshotFromBazel T settingsPath artifactId w)) =
     [Spawn ''mktemp'' [''-d''],
      Log (''Created temp directory: '' @ tmpPathOf T w),
      Spawn ''unzip'' [''bazel-bin/'' @ artifactId @ ''_bundle.jar'', ''-d'', tmpPathOf T w],
      Spawn ''mvn'' (mvnArgs settingsPath (tmpPathOf T w)
         (collectJarArgs (extracted T artifactId w)
            (tmpPathOf T w @ ''/'' @ artifactId @ ''-1.0-SNAPSHOT'') JAR_SUFFIX_BY_MVN_ARG [])),
      Spawn ''rm'' [''-R'', tmpPathOf T w],
      Log (''Deleted temp directory: '' @ tmpPathOf T w)]"
    using mavenDeploy_trace by (rule emitted_append)
  then have calls: "mvnCalls (emitted w (snd (mavenDeploySnapshotFromBazel T settingsPath artifactId w)))
      = [mvnArgs settingsPath (tmpPathOf T w)
         (collectJarArgs (extracted T artifactId w)
            (tmpPathOf T w @ ''/'' @ artifactId @ ''-1.0-SNAPSHOT'') JAR_SUFFIX_BY_MVN_ARG [])]"
    by (simp add: mvnCalls_def)
  have len: "length (collectJarArgs (extracted T artifactId w)
          (tmpPathOf T w @ ''/'' @ artifactId @ ''-1.0-SNAPSHOT'') JAR_SUFFIX_BY_MVN_ARG []) \<le> 3"
    by (simp add: JAR_SUFFIX_BY_MVN_ARG_def Let_def)
  show ?thesis
    using calls len by (simp add: mvnArgs_def)
qed

theorem deploy_argument_list_witness:
  "mvnCalls (emitted demoWorld (snd (mavenDeploySnapshotFromBazel demoTools
       ''/tmp/s/settings.xml'' ''closure-compiler'' demoWorld))) =
     [[''deploy:deploy-file'',
       ''--settings=/tmp/s/settings.xml'',
       ''-DgeneratePom=false'',
       ''-DrepositoryId=snapshot-repo-id'',
       ''-Durl=https://oss.sonatype.org/content/repositories/snapshots/'',
       ''-DpomFile=/tmp/tmp.a/pom.xml'',
       ''-Dfile=/tmp/tmp.a/closure-compiler-1.0-SNAPSHOT.jar'',
       ''-Dsources=/tmp/tmp.a/closure-compiler-1.0-SNAPSHOT-sources.jar'']]"
  using deploy_argument_list [of demoWorld demoTools "''/tmp/s/settings.xml''" "''closure-compiler''"]
  unfolding demo_tmpPath
  by (simp add: demo_extracted)

text \<open>
  C10. Whatever \<^verbatim>\<open>unzip\<close> extracted, the sixth argument of the \<^verbatim>\<open>mvn\<close> invocation is
  \<^verbatim>\<open>-DpomFile=\<close> followed by \<^verbatim>\<open>pom.xml\<close> in the temporary directory, and the arguments after
  it are the tokens of the classifier loop. The loop tests the three jar paths only:
  its result is the same when the filesystem is changed at the POM's path in any way.
\<close>

theorem pomFile_unchecked:
  "(mvnCalls (emitted w (snd (mavenDeploySnapshotFromBazel T settingsPath artifactId w))) = [args]
      \<longrightarrow> args ! 5 = ''-DpomFile='' @ tmpPathOf T w @ ''/pom.xml''
        \<and> drop 6 args = collectJarArgs (extracted T artifactId w)
            (tmpPathOf T w @ ''/'' @ artifactId @ ''-1.0-SNAPSHOT'') JAR_SUFFIX_BY_MVN_ARG [])
   \<and> (\<exists>args. mvnCalls (emitted w (snd (mavenDeploySnapshotFromBazel T settingsPath artifactId w))) = [args])
   \<and> collectJarArgs (fs(tmpPath @ ''/pom.xml'' := x))
        (tmpPath @ ''/'' @ artifactId @ ''-1.0-SNAPSHOT'') JAR_SUFFIX_BY_MVN_ARG []
     = collectJarArgs fs
        (tmpPath @ ''/'' @ artifactId @ ''-1.0-SNAPSHOT'') JAR_SUFFIX_BY_MVN_ARG []"
proof -
  have "emitted w (snd (mavenDeploySnapshotFromBazel T settingsPath artifactId w)) =
     [Spawn ''mktemp'' [''-d''],
      Log (''Created temp directory: '' @ tmpPathOf T w),
      Spawn ''unzip'' [''bazel-bin/'' @ artifactId @ ''_bundle.jar'', ''-d'', tmpPathOf T w],
      Spawn ''mvn'' (mvnArgs settingsPath (tmpPathOf T w)
         (collectJarArgs (extracted T artifactId w)
            (tmpPathOf T w @ ''/'' @ artifactId @ ''-1.0-SNAPSHOT'') JAR_SUFFIX_BY_MVN_ARG [])),
      Spawn ''rm'' [''-R'', tmpPathOf T w],
      Log (''Deleted temp directory: '' @ tmpPathOf T w)]"
    using mavenDeploy_trace by (rule emitted_append)
  then have calls: "mvnCalls (emitted w (snd (mavenDeploySnapshotFromBazel T settingsPath artifactId w)))
      = [mvnArgs settingsPath (tmpPathOf T w)
         (collectJarArgs (extracted T artifactId w)
            (tmpPathOf T w @ ''/'' @ artifactId @ ''-1.0-SNAPSHOT'') JAR_SUFFIX_BY_MVN_ARG [])]"
    by (simp add: mvnCalls_def)
  have ex: "\<And>sfx. existsSync (fs(tmpPath @ ''/pom.xml'' := x))
               (tmpPath @ ''/'' @ artifactId @ ''-1.0-SNAPSHOT'' @ sfx @ ''.jar'')
           = existsSync fs (tmpPath @ ''/'' @ artifactId @ ''-1.0-SNAPSHOT'' @ sfx @ ''.jar'')"
    using pom_not_jar [of tmpPath artifactId] by (simp add: existsSync_def)
  have indep: "collectJarArgs (fs(tmpPath @ ''/pom.xml'' := x))
        (tmpPath @ ''/'' @ artifactId @ ''-1.0-SNAPSHOT'') JAR_SUFFIX_BY_MVN_ARG []
     = collectJarArgs fs
        (tmpPath @ ''/'' @ artifactId @ ''-1.0-SNAPSHOT'') JAR_SUFFIX_BY_MVN_ARG []"
    using ex [of "[]"] ex [of "''-sources''"] ex [of "''-javadoc''"]
    by (simp add: JAR_SUFFIX_BY_MVN_ARG_def Let_def)
  have pom: "args ! 5 = ''-DpomFile='' @ tmpPathOf T w @ ''/pom.xml''
        \<and> drop 6 args = collectJarArgs (extracted T artifactId w)
            (tmpPathOf T w @ ''/'' @ artifactId @ ''-1.0-SNAPSHOT'') JAR_SUFFIX_BY_MVN_ARG []"
    if "mvnCalls (emitted w (snd (mavenDeploySnapshotFromBazel T settingsPath artifactId w))) = [args]"
  proof -
    have "args = mvnArgs settingsPath (tmpPathOf T w)
         (collectJarArgs (extracted T artifactId w)
            (tmpPathOf T w @ ''/'' @ artifactId @ ''-1.0-SNAPSHOT'') JAR_SUFFIX_BY_MVN_ARG [])"
      using that calls by simp
    then show ?thesis by (simp add: mvnArgs_def)
  qed
  show ?thesis
    using calls indep pom by blast
qed

theorem pomFile_unchecked_witness:
  "\<not> existsSync (extracted demoTools ''closure-compiler-externs'' demoWorld) ''/tmp/tmp.a/pom.xml''
   \<and> mvnCalls (emitted demoWorld (snd (mavenDeploySnapshotFromBazel demoTools
         ''/tmp/s/settings.xml'' ''closure-compiler-externs'' demoWorld))) =
       [[''deploy:deploy-file'',
         ''--settings=/tmp/s/settings.xml'',
         ''-DgeneratePom=false'',
         ''-DrepositoryId=snapshot-repo-id'',
         ''-Durl=https://oss.sonatype.org/content/repositories/snapshots/'',
         ''-DpomFile=/tmp/tmp.a/pom.xml'']]"
proof -
  let ?args = "[''deploy:deploy-file'',
         ''--settings=/tmp/s/settings.xml'',
         ''-DgeneratePom=false'',
         ''-DrepositoryId=snapshot-repo-id'',
         ''-Durl=https://oss.sonatype.org/content/repositories/snapshots/'',
         ''-DpomFile=/tmp/tmp.a/pom.xml'']"
  have nopom: "\<not> existsSync (extracted demoTools ''closure-compiler-externs'' demoWorld)
      ''/tmp/tmp.a/pom.xml''"
    by (simp add: existsSync_def demo_extracted_externs)
  have "emitted demoWorld (snd (mavenDeploySnapshotFromBazel demoTools
         ''/tmp/s/settings.xml'' ''closure-compiler-externs'' demoWorld)) =
     [Spawn ''mktemp'' [''-d''],
      Log (''Created temp directory: '' @ tmpPathOf demoTools demoWorld),
      Spawn ''unzip'' [''bazel-bin/'' @ ''closure-compiler-externs'' @ ''_bundle.jar'', ''-d'',
        tmpPathOf demoTools demoWorld],
      Spawn ''mvn'' (mvnArgs ''/tmp/s/settings.xml'' (tmpPathOf demoTools demoWorld)
         (collectJarArgs (extracted demoTools ''closure-compiler-externs'' demoWorld)
            (tmpPathOf demoTools demoWorld @ ''/'' @ ''closure-compiler-externs'' @ ''-1.0-SNAPSHOT'')
            JAR_SUFFIX_BY_MVN_ARG [])),
      Spawn ''rm'' [''-R'', tmpPathOf demoTools demoWorld],
      Log (''Deleted temp directory: '' @ tmpPathOf demoTools demoWorld)]"
    using mavenDeploy_trace by (rule emitted_append)
  then have calls: "mvnCalls (emitted demoWorld (snd (mavenDeploySnapshotFromBazel demoTools
         ''/tmp/s/settings.xml'' ''closure-compiler-externs'' demoWorld))) = [?args]"
    unfolding demo_tmpPath by (simp add: mvnCalls_def mvnArgs_def demo_externs_args)
  show ?thesis
    using pomFile_unchecked [of demoWorld demoTools "''/tmp/s/settings.xml''"
            "''closure-compiler-externs''" ?args] calls nopom
    by simp
qed

section \<open>The sequence of deployments\<close>

text \<open>
  C6. For every list of identifiers the loop completes and spawns, for each identifier
  in list order, \<^verbatim>\<open>mktemp\<close>, \<^verbatim>\<open>unzip\<close> of that identifier's bundle, \<^verbatim>\<open>mvn\<close> and \<^verbatim>\<open>rm\<close>, one
  group after the other: exactly one \<^verbatim>\<open>mvn\<close> invocation per identifier. A run of \<open>main\<close>
  that raises no error is the outer \<^verbatim>\<open>mktemp\<close>, these groups for the five identifiers of
  the script, and the outer \<^verbatim>\<open>rm\<close>: five \<^verbatim>\<open>mvn\<close> invocations.
\<close>

theorem deploys_in_list_order:
  "fst (deployEach T settingsPath ids w) = Inr Undefined
   \<and> outline (emitted w (snd (deployEach T settingsPath ids w))) =
       concat (map (\<lambda>a. [(''mktemp'', [''-d'']),
                          (''unzip'', [''bazel-bin/'' @ a @ ''_bundle.jar'']),
                          (''mvn'', [''deploy:deploy-file'']),
                          (''rm'', [''-R''])]) ids)
   \<and> length (mvnCalls (emitted w (snd (deployEach T settingsPath ids w)))) = length ids
   \<and> (fst (main T w) = Inr v \<longrightarrow>
        outline (emitted w (snd (main T w))) =
          [(''mktemp'', [''-d''])]
          @ concat (map (\<lambda>a. [(''mktemp'', [''-d'']),
                               (''unzip'', [''bazel-bin/'' @ a @ ''_bundle.jar'']),
                               (''mvn'', [''deploy:deploy-file'']),
                               (''rm'', [''-R''])]) artifactIds)
          @ [(''rm'', [''-R''])]
      \<and> length (mvnCalls (emitted w (snd (main T w)))) = 5)"
proof -
  have loop: "outline (emitted w (snd (deployEach T settingsPath ids w))) =
       concat (map (\<lambda>a. [(''mktemp'', [''-d'']),
                          (''unzip'', [''bazel-bin/'' @ a @ ''_bundle.jar'']),
                          (''mvn'', [''deploy:deploy-file'']),
                          (''rm'', [''-R''])]) ids)
   \<and> length (mvnCalls (emitted w (snd (deployEach T settingsPath ids w)))) = length ids"
    by (rule deployEach_emitted)
  have whole: "outline (emitted w (snd (main T w))) =
          [(''mktemp'', [''-d''])]
          @ concat (map (\<lambda>a. [(''mktemp'', [''-d'']),
                               (''unzip'', [''bazel-bin/'' @ a @ ''_bundle.jar'']),
                               (''mvn'', [''deploy:deploy-file'']),
                               (''rm'', [''-R''])]) artifactIds)
          @ [(''rm'', [''-R''])]
      \<and> length (mvnCalls (emitted w (snd (main T w)))) = 5"
    if ok: "fst (main T w) = Inr v"
  proof -
    let ?p = "tmpPathOf T w"
    let ?sp = "?p @ ''/settings.xml''"
    obtain r w1 where ws: "writeSettings ?sp (scopeEntered T w) = (r, w1)"
      by (cases "writeSettings ?sp (scopeEntered T w)")
    obtain v' where r: "r = Inr v'"
      using ok ws by (cases r) (simp_all add: main_eq)
    have notmissing: "\<not> (env (scopeEntered T w) ''SONATYPE_USERNAME'' = None
         \<or> env (scopeEntered T w) ''SONATYPE_PASSWORD'' = None)"
    proof
      assume m: "env (scopeEntered T w) ''SONATYPE_USERNAME'' = None
         \<or> env (scopeEntered T w) ''SONATYPE_PASSWORD'' = None"
      show False
        using writeSettings_missing [OF m, of ?sp] ws r by simp
    qed
    then have "env (scopeEntered T w) ''SONATYPE_USERNAME'' \<noteq> None"
        "env (scopeEntered T w) ''SONATYPE_PASSWORD'' \<noteq> None"
      by simp_all
    then obtain u p where up: "env (scopeEntered T w) ''SONATYPE_USERNAME'' = Some u"
        "env (scopeEntered T w) ''SONATYPE_PASSWORD'' = Some p"
      by blast
    have w1: "trace w1 = trace w @ [Spawn ''mktemp'' [''-d''],
          Log (''Created temp directory: '' @ ?p), Write ?sp (settingsXml u p)]"
      using writeSettings_present [OF up, of ?sp] ws r
      by (auto simp: scopeEntered_def split: if_splits)
    from deployEach_trace [of T ?sp artifactIds w1] obtain es where
      es: "trace (snd (deployEach T ?sp artifactIds w1)) = trace w1 @ es"
        "outline es = concat (map (\<lambda>a. [(''mktemp'', [''-d'']),
              (''unzip'', [''bazel-bin/'' @ a @ ''_bundle.jar'']),
              (''mvn'', [''deploy:deploy-file'']),
              (''rm'', [''-R''])]) artifactIds)"
        "length (mvnCalls es) = length artifactIds"
      by blast
    let ?pre = "[Spawn ''mktemp'' [''-d''],
          Log (''Created temp directory: '' @ ?p), Write ?sp (settingsXml u p)]"
    let ?post = "[Spawn ''rm'' [''-R'', ?p], Log (''Deleted temp directory: '' @ ?p)]"
    have "trace (snd (main T w)) = trace w @ (?pre @ es @ ?post)"
      by (simp add: main_eq ws r scopeExited_def es(1) w1)
    then have em: "emitted w (snd (main T w)) = ?pre @ es @ ?post"
      by (rule emitted_append)
    have o1: "outline ?pre = [(''mktemp'', [''-d''])]" by (simp add: outline_def)
    have o2: "outline ?post = [(''rm'', [''-R''])]" by (simp add: outline_def)
    have m1: "mvnCalls ?pre = []" by (simp add: mvnCalls_def)
    have m2: "mvnCalls ?post = []" by (simp add: mvnCalls_def)
    have five: "length artifactIds = 5" by (simp add: artifactIds_def)
    have A: "outline (emitted w (snd (main T w))) =
          [(''mktemp'', [''-d''])]
          @ concat (map (\<lambda>a. [(''mktemp'', [''-d'']),
                               (''unzip'', [''bazel-bin/'' @ a @ ''_bundle.jar'']),
                               (''mvn'', [''deploy:deploy-file'']),
                               (''rm'', [''-R''])]) artifactIds)
          @ [(''rm'', [''-R''])]"
      by (simp only: em outline_append o1 o2 es(2))
    have B: "length (mvnCalls (emitted w (snd (main T w)))) = 5"
      by (simp only: em mvnCalls_append m1 m2 length_append es(3) five) simp
    show ?thesis using A B by blast
  qed
  show ?thesis
    using deployEach_fst [of T settingsPath ids w] loop whole by blast
qed

theorem deploys_in_list_order_witness:
  "fst (main demoTools demoWorld) = Inr Undefined
   \<and> length (mvnCalls (emitted demoWorld (snd (main demoTools demoWorld)))) = 5
   \<and> outline (emitted demoWorld (snd (main demoTools demoWorld))) =
       [(''mktemp'', [''-d'']),
        (''mktemp'', [''-d'']), (''unzip'', [''bazel-bin/closure-compiler_bundle.jar'']),
        (''mvn'', [''deploy:deploy-file'']), (''rm'', [''-R'']),
        (''mktemp'', [''-d'']), (''unzip'', [''bazel-bin/closure-compiler-unshaded_bundle.jar'']),
        (''mvn'', [''deploy:deploy-file'']), (''rm'', [''-R'']),
        (''mktemp'', [''-d'']), (''unzip'', [''bazel-bin/closure-compiler-externs_bundle.jar'']),
        (''mvn'', [''deploy:deploy-file'']), (''rm'', [''-R'']),
        (''mktemp'', [''-d'']), (''unzip'', [''bazel-bin/closure-compiler-main_bundle.jar'']),
        (''mvn'', [''deploy:deploy-file'']), (''rm'', [''-R'']),
        (''mktemp'', [''-d'']), (''unzip'', [''bazel-bin/closure-compiler-parent_bundle.jar'']),
        (''mvn'', [''deploy:deploy-file'']), (''rm'', [''-R'']),
        (''rm'', [''-R''])]"
  using deploys_in_list_order [of demoTools "[]" "[]" demoWorld Undefined] demo_main_ok
  by (simp add: artifactIds_def)

text \<open>
  C7. Whatever \<^verbatim>\<open>unzip\<close> and \<^verbatim>\<open>mvn\<close> report, \<open>mavenDeploySnapshotFromBazel\<close> returns normally
  and its events are, in this order: \<^verbatim>\<open>mktemp\<close>, the log line, \<^verbatim>\<open>unzip\<close> of the bundle,
  \<^verbatim>\<open>mvn\<close> with the deploy arguments, \<^verbatim>\<open>rm\<close>, the log line. So \<^verbatim>\<open>mvn\<close> follows \<^verbatim>\<open>unzip\<close> and the
  cleanup follows \<^verbatim>\<open>mvn\<close> also when the tool before it failed. The loop returns normally
  as well and runs the four commands for every identifier of its list, in order: a
  failure for one artifact does not keep the following ones from being processed.
  No exit status is ever read: for two sets of tools that behave alike except for the
  statuses they report, the deployment of one artifact, the loop and \<open>main\<close> return the
  same result and the same world.
\<close>

theorem exit_status_ignored:
  "fst (mavenDeploySnapshotFromBazel T settingsPath artifactId w) = Inr Undefined
   \<and> emitted w (snd (mavenDeploySnapshotFromBazel T settingsPath artifactId w)) =
       [Spawn ''mktemp'' [''-d''],
        Log (''Created temp directory: '' @ tmpPathOf T w),
        Spawn ''unzip'' [''bazel-bin/'' @ artifactId @ ''_bundle.jar'', ''-d'', tmpPathOf T w],
        Spawn ''mvn''
          ([''deploy:deploy-file'',
            ''--settings='' @ settingsPath,
            ''-DgeneratePom=false'',
            ''-DrepositoryId=snapshot-repo-id'',
            ''-Durl=https://oss.sonatype.org/content/repositories/snapshots/'',
            ''-DpomFile='' @ tmpPathOf T w @ ''/pom.xml'']
           @ collectJarArgs (extracted T artifactId w)
               (tmpPathOf T w @ ''/'' @ artifactId @ ''-1.0-SNAPSHOT'') JAR_SUFFIX_BY_MVN_ARG []),
        Spawn ''rm'' [''-R'', tmpPathOf T w],
        Log (''Deleted temp directory: '' @ tmpPathOf T w)]
   \<and> fst (deployEach T settingsPath ids w) = Inr Undefined
   \<and> outline (emitted w (snd (deployEach T settingsPath ids w))) =
       concat (map (\<lambda>a. [(''mktemp'', [''-d'']),
                          (''unzip'', [''bazel-bin/'' @ a @ ''_bundle.jar'']),
                          (''mvn'', [''deploy:deploy-file'']),
                          (''rm'', [''-R''])]) ids)
   \<and> ((\<forall>command args s. snd (T command args s) = snd (T' command args s)
          \<and> stdout (fst (T command args s)) = stdout (fst (T' command args s))) \<longrightarrow>
        mavenDeploySnapshotFromBazel T settingsPath artifactId w =
          mavenDeploySnapshotFromBazel T' settingsPath artifactId w
      \<and> deployEach T settingsPath ids w = deployEach T' settingsPath ids w
      \<and> main T w = main T' w)"
proof -
  have one: "fst (mavenDeploySnapshotFromBazel T settingsPath artifactId w) = Inr Undefined"
    by (simp add: mavenDeploy_eq)
  have "emitted w (snd (mavenDeploySnapshotFromBazel T settingsPath artifactId w)) =
     [Spawn ''mktemp'' [''-d''],
      Log (''Created temp directory: '' @ tmpPathOf T w),
      Spawn ''unzip'' [''bazel-bin/'' @ artifactId @ ''_bundle.jar'', ''-d'', tmpPathOf T w],
      Spawn ''mvn'' (mvnArgs settingsPath (tmpPathOf T w)
         (collectJarArgs (extracted T artifactId w)
            (tmpPathOf T w @ ''/'' @ artifactId @ ''-1.0-SNAPSHOT'') JAR_SUFFIX_BY_MVN_ARG [])),
      Spawn ''rm'' [''-R'', tmpPathOf T w],
      Log (''Deleted temp directory: '' @ tmpPathOf T w)]"
    using mavenDeploy_trace by (rule emitted_append)
  then have events: "emitted w (snd (mavenDeploySnapshotFromBazel T settingsPath artifactId w)) =
       [Spawn ''mktemp'' [''-d''],
        Log (''Created temp directory: '' @ tmpPathOf T w),
        Spawn ''unzip'' [''bazel-bin/'' @ artifactId @ ''_bundle.jar'', ''-d'', tmpPathOf T w],
        Spawn ''mvn''
          ([''deploy:deploy-file'',
            ''--settings='' @ settingsPath,
            ''-DgeneratePom=false'',
            ''-DrepositoryId=snapshot-repo-id'',
            ''-Durl=https://oss.sonatype.org/content/repositories/snapshots/'',
            ''-DpomFile='' @ tmpPathOf T w @ ''/pom.xml'']
           @ collectJarArgs (extracted T artifactId w)
               (tmpPathOf T w @ ''/'' @ artifactId @ ''-1.0-SNAPSHOT'') JAR_SUFFIX_BY_MVN_ARG []),
        Spawn ''rm'' [''-R'', tmpPathOf T w],
        Log (''Deleted temp directory: '' @ tmpPathOf T w)]"
    by (simp add: mvnArgs_def)
  have loop: "fst (deployEach T settingsPath ids w) = Inr Undefined"
    by (rule deployEach_fst)
  have order: "outline (emitted w (snd (deployEach T settingsPath ids w))) =
       concat (map (\<lambda>a. [(''mktemp'', [''-d'']),
                          (''unzip'', [''bazel-bin/'' @ a @ ''_bundle.jar'']),
                          (''mvn'', [''deploy:deploy-file'']),
                          (''rm'', [''-R''])]) ids)"
    using deployEach_emitted [of w T settingsPath ids] by blast
  have same: "mavenDeploySnapshotFromBazel T settingsPath artifactId w =
          mavenDeploySnapshotFromBazel T' settingsPath artifactId w
      \<and> deployEach T settingsPath ids w = deployEach T' settingsPath ids w
      \<and> main T w = main T' w"
    if agree: "\<forall>command args s. snd (T command args s) = snd (T' command args s)
          \<and> stdout (fst (T command args s)) = stdout (fst (T' command args s))"
  proof -
    have a1: "\<And>c a s. snd (T c a s) = snd (T' c a s)"
      using agree by blast
    have a2: "\<And>c a s. stdout (fst (T c a s)) = stdout (fst (T' c a s))"
      using agree by blast
    have "mainCallback T = mainCallback T'"
      by (intro ext)
         (simp add: mainCallback_def Let_def agree_deployEach [of T T', OF a1 a2]
            split: prod.splits sum.splits)
    then have "main T w = main T' w"
      by (simp add: main_def agree_withTempDir [of T T', OF a1 a2])
    then show ?thesis
      using agree_mavenDeploy [of T T', OF a1 a2] agree_deployEach [of T T', OF a1 a2]
      by simp
  qed
  show ?thesis
    using one events loop order same by blast
qed

theorem exit_status_ignored_witness:
  "status (fst (demoTools ''unzip''
       [''bazel-bin/closure-compiler-externs_bundle.jar'', ''-d'', ''/tmp/tmp.a'']
       (snd (demoTools ''mktemp'' [''-d''] ((), demoFs))))) = Some 9
   \<and> status (fst (demoTools ''mvn'' [] ((), demoFs))) = Some 1
   \<and> status (fst (demoToolsOk ''mvn'' [] ((), demoFs))) = Some 0
   \<and> fst (mavenDeploySnapshotFromBazel demoTools ''/tmp/s/settings.xml''
            ''closure-compiler-externs'' demoWorld) = Inr Undefined
   \<and> emitted demoWorld (snd (mavenDeploySnapshotFromBazel demoTools ''/tmp/s/settings.xml''
            ''closure-compiler-externs'' demoWorld)) =
       [Spawn ''mktemp'' [''-d''],
        Log ''Created temp directory: /tmp/tmp.a'',
        Spawn ''unzip'' [''bazel-bin/closure-compiler-externs_bundle.jar'', ''-d'', ''/tmp/tmp.a''],
        Spawn ''mvn''
          [''deploy:deploy-file'',
           ''--settings=/tmp/s/settings.xml'',
           ''-DgeneratePom=false'',
           ''-DrepositoryId=snapshot-repo-id'',
           ''-Durl=https://oss.sonatype.org/content/repositories/snapshots/'',
           ''-DpomFile=/tmp/tmp.a/pom.xml''],
        Spawn ''rm'' [''-R'', ''/tmp/tmp.a''],
        Log ''Deleted temp directory: /tmp/tmp.a'']
   \<and> outline (emitted demoWorld (snd (deployEach demoTools ''/tmp/s/settings.xml''
            [''closure-compiler-externs'', ''closure-compiler-main''] demoWorld))) =
       [(''mktemp'', [''-d'']), (''unzip'', [''bazel-bin/closure-compiler-externs_bundle.jar'']),
        (''mvn'', [''deploy:deploy-file'']), (''rm'', [''-R'']),
        (''mktemp'', [''-d'']), (''unzip'', [''bazel-bin/closure-compiler-main_bundle.jar'']),
        (''mvn'', [''deploy:deploy-file'']), (''rm'', [''-R''])]
   \<and> main demoTools demoWorld = main demoToolsOk demoWorld
   \<and> fst (main demoTools demoWorld) = Inr Undefined"
proof -
  have h: "\<forall>command args s. snd (demoTools command args s) = snd (demoToolsOk command args s)
      \<and> stdout (fst (demoTools command args s)) = stdout (fst (demoToolsOk command args s))"
    by (simp add: demoToolsOk_def)
  have s0: "status (fst (demoTools ''unzip''
       [''bazel-bin/closure-compiler-externs_bundle.jar'', ''-d'', ''/tmp/tmp.a'']
       (snd (demoTools ''mktemp'' [''-d''] ((), demoFs))))) = Some 9"
    by (simp add: demoTools_def demoFs_def existsSync_def)
  have s1: "status (fst (demoTools ''mvn'' [] ((), demoFs))) = Some 1"
    by (simp add: demoTools_def)
  have s2: "status (fst (demoToolsOk ''mvn'' [] ((), demoFs))) = Some 0"
    by (simp add: demoToolsOk_def)
  note inst = exit_status_ignored [of demoTools "''/tmp/s/settings.xml''"
            "''closure-compiler-externs''" demoWorld
            "[''closure-compiler-externs'', ''closure-compiler-main'']" demoToolsOk]
  have ok: "fst (mavenDeploySnapshotFromBazel demoTools ''/tmp/s/settings.xml''
            ''closure-compiler-externs'' demoWorld) = Inr Undefined"
    using inst by blast
  have ev: "emitted demoWorld (snd (mavenDeploySnapshotFromBazel demoTools ''/tmp/s/settings.xml''
            ''closure-compiler-externs'' demoWorld)) =
       [Spawn ''mktemp'' [''-d''],
        Log ''Created temp directory: /tmp/tmp.a'',
        Spawn ''unzip'' [''bazel-bin/closure-compiler-externs_bundle.jar'', ''-d'', ''/tmp/tmp.a''],
        Spawn ''mvn''
          [''deploy:deploy-file'',
           ''--settings=/tmp/s/settings.xml'',
           ''-DgeneratePom=false'',
           ''-DrepositoryId=snapshot-repo-id'',
           ''-Durl=https://oss.sonatype.org/content/repositories/snapshots/'',
           ''-DpomFile=/tmp/tmp.a/pom.xml''],
        Spawn ''rm'' [''-R'', ''/tmp/tmp.a''],
        Log ''Deleted temp directory: /tmp/tmp.a'']"
    using inst unfolding demo_tmpPath by (simp add: demo_externs_args)
  have ord: "outline (emitted demoWorld (snd (deployEach demoTools ''/tmp/s/settings.xml''
            [''closure-compiler-externs'', ''closure-compiler-main''] demoWorld))) =
       [(''mktemp'', [''-d'']), (''unzip'', [''bazel-bin/closure-compiler-externs_bundle.jar'']),
        (''mvn'', [''deploy:deploy-file'']), (''rm'', [''-R'']),
        (''mktemp'', [''-d'']), (''unzip'', [''bazel-bin/closure-compiler-main_bundle.jar'']),
        (''mvn'', [''deploy:deploy-file'']), (''rm'', [''-R''])]"
    using inst by simp
  have eq: "main demoTools demoWorld = main demoToolsOk demoWorld"
    using inst h by blast
  show ?thesis
    using s0 s1 s2 ok ev ord eq demo_main_ok by blast
qed

end
